theory Spec2Isabelle
  imports Complex_Main "HOL-Library.Log_Nat" "HOL-Library.Word"
begin

section \<open>Clementine tag reader: rating codec, FMPS precedence and selective saves\<close>

text \<open>
  A shallow embedding of \<^verbatim>\<open>ext/libclementine-tagreader/tagreader.cpp\<close>.
  The definitions come first, in the order of the source file; the lemmas and theorems follow.
\<close>

subsection \<open>C++ arithmetic: \<^verbatim>\<open>float\<close>, \<^verbatim>\<open>double\<close> and the conversions between numbers\<close>

text \<open>
  An IEEE-754 value is a rational number, an infinity or a NaN. \<^verbatim>\<open>float\<close> (binary32) and
  \<^verbatim>\<open>double\<close> (binary64) share the type: promoting a float to a double keeps the value, and
  converting a double to a float rounds it (\<open>to_float\<close>). Signed zeros are not told apart: no
  comparison of the source does.
\<close>

datatype fp = Finite rat | PInf | NInf | NaN

text \<open>The comparisons \<^verbatim>\<open><\<close>, \<^verbatim>\<open><=\<close> and \<^verbatim>\<open>==\<close>: every comparison with a NaN is false.\<close>

fun fp_less :: "fp \<Rightarrow> fp \<Rightarrow> bool" where
  "fp_less (Finite a) (Finite b) = (a < b)"
| "fp_less (Finite a) PInf = True"
| "fp_less NInf (Finite b) = True"
| "fp_less NInf PInf = True"
| "fp_less _ _ = False"

fun fp_eq :: "fp \<Rightarrow> fp \<Rightarrow> bool" where
  "fp_eq (Finite a) (Finite b) = (a = b)"
| "fp_eq PInf PInf = True"
| "fp_eq NInf NInf = True"
| "fp_eq _ _ = False"

definition fp_le :: "fp \<Rightarrow> fp \<Rightarrow> bool" where
  "fp_le x y = (fp_less x y \<or> fp_eq x y)"

text \<open>Rounding to the nearest integer, ties to the even one.\<close>

definition round_half_even :: "rat \<Rightarrow> int" where
  "round_half_even x =
     (let f = \<lfloor>x\<rfloor>; r = x - of_int f
      in if r < 1 / 2 then f else if 1 / 2 < r then f + 1 else if even f then f else f + 1)"

text \<open>For \<open>0 < q\<close>, the exponent \<open>e\<close> with \<open>2 powi e \<le> q < 2 powi (e + 1)\<close>.\<close>

definition ilog2 :: "rat \<Rightarrow> int" where
  "ilog2 q = (if 1 \<le> q then bitlen \<lfloor>q\<rfloor> - 1 else - bitlen (\<lceil>1 / q\<rceil> - 1))"

text \<open>
  IEEE-754 round-to-nearest-even into a binary format with \<open>p\<close> significant bits, least
  exponent of the unit in the last place \<open>emin\<close> (the subnormal spacing) and largest exponent
  \<open>emax\<close>: the value is rounded to a multiple of the unit in the last place of its binade, and
  a result of magnitude \<open>2 powi (emax + 1)\<close> or more overflows to an infinity.
\<close>

definition round_binary :: "nat \<Rightarrow> int \<Rightarrow> int \<Rightarrow> rat \<Rightarrow> fp" where
  "round_binary p emin emax q =
     (if q = 0 then Finite 0
      else let e = max (ilog2 \<bar>q\<bar> - (int p - 1)) emin;
               r = of_int (round_half_even (q / 2 powi e)) * 2 powi e
           in if 2 powi (emax + 1) \<le> \<bar>r\<bar> then (if q < 0 then NInf else PInf) else Finite r)"

text \<open>The double nearest to a number: a decimal literal such as \<^verbatim>\<open>0.20\<close>, or the exact
  result of an arithmetic operation on doubles.\<close>

definition to_double :: "rat \<Rightarrow> fp" where
  "to_double q = round_binary 53 (- 1074) 1023 q"

text \<open>The conversion of a double to a float, and the float nearest to a number.\<close>

fun to_float :: "fp \<Rightarrow> fp" where
  "to_float (Finite q) = round_binary 24 (- 149) 127 q"
| "to_float x = x"

text \<open>A value of type \<^verbatim>\<open>float\<close>: one that the conversion to float leaves as it is.\<close>

definition is_float :: "fp \<Rightarrow> bool" where
  "is_float x = (to_float x = x)"

text \<open>
  The conversion of a floating-point value to \<^verbatim>\<open>int\<close> (32 bits) truncates towards zero; it
  is undefined behaviour (\<open>None\<close>) for a NaN, an infinity and a truncated value outside the
  range of \<^verbatim>\<open>int\<close>.
\<close>

definition trunc :: "rat \<Rightarrow> int" where
  "trunc q = (if 0 \<le> q then \<lfloor>q\<rfloor> else \<lceil>q\<rceil>)"

fun fp_to_int :: "fp \<Rightarrow> int option" where
  "fp_to_int (Finite q) =
     (if - (2 ^ 31) \<le> trunc q \<and> trunc q < 2 ^ 31 then Some (trunc q) else None)"
| "fp_to_int _ = None"

subsection \<open>The rating codec\<close>

text \<open>
  \<^verbatim>\<open>float TagReader::ConvertPOPMRating(const int POPM_rating)\<close>: each \<^verbatim>\<open>return 0.20;\<close>
  converts the double literal to the float the function returns.
\<close>

definition ConvertPOPMRating :: "int \<Rightarrow> fp" where
  "ConvertPOPMRating POPM_rating =
     (if POPM_rating < 0x01 then to_float (to_double 0)
      else if POPM_rating < 0x40 then to_float (to_double (20 / 100))
      else if POPM_rating < 0x80 then to_float (to_double (40 / 100))
      else if POPM_rating < 0xC0 then to_float (to_double (60 / 100))
      else if POPM_rating < 0xFC then to_float (to_double (80 / 100))
      else to_float (to_double 1))"

text \<open>
  \<^verbatim>\<open>int TagReader::ConvertToPOPMRating(const float rating)\<close>: each comparison promotes the
  float to a double and compares it with the double literal.
\<close>

definition ConvertToPOPMRating :: "fp \<Rightarrow> int" where
  "ConvertToPOPMRating rating =
     (if fp_less rating (to_double (20 / 100)) then 0x00
      else if fp_less rating (to_double (40 / 100)) then 0x01
      else if fp_less rating (to_double (60 / 100)) then 0x40
      else if fp_less rating (to_double (80 / 100)) then 0x80
      else if fp_less rating (to_double 1) then 0xC0
      else 0xFF)"

subsection \<open>Qt strings\<close>

text \<open>
  A \<^verbatim>\<open>QString\<close> is a list of 8-bit characters here. \<^verbatim>\<open>QChar::isSpace\<close> on that range: the
  ASCII white space, the next-line control and the no-break space.
\<close>

definition isSpace :: "char \<Rightarrow> bool" where
  "isSpace c = (of_char c \<in> {0x09, 0x0A, 0x0B, 0x0C, 0x0D, 0x20, 0x85, 0xA0 :: nat})"

definition trimmed :: "string \<Rightarrow> string" where
  "trimmed s = rev (dropWhile isSpace (rev (dropWhile isSpace s)))"

text \<open>\<^verbatim>\<open>QString::indexOf(QChar)\<close>: the first position of the character, or -1.\<close>

definition indexOf :: "string \<Rightarrow> char \<Rightarrow> int" where
  "indexOf s c = (if c \<in> set s then int (length (takeWhile (\<lambda>x. x \<noteq> c) s)) else - 1)"

text \<open>\<^verbatim>\<open>QString::left(n)\<close>: the whole string when \<open>n\<close> is negative or not less than the size.\<close>

definition left :: "string \<Rightarrow> int \<Rightarrow> string" where
  "left s n = (if n < 0 \<or> int (length s) \<le> n then s else take (nat n) s)"

text \<open>
  \<^verbatim>\<open>QString::toInt()\<close> in base 10: white space around the number is skipped, a sign may
  come first, at least one decimal digit follows and nothing else; a string of another shape,
  or a value outside the range of \<^verbatim>\<open>int\<close>, fails to convert and gives 0.
\<close>

definition digit :: "char \<Rightarrow> nat option" where
  "digit c = (if 0x30 \<le> (of_char c :: nat) \<and> (of_char c :: nat) \<le> 0x39
              then Some (of_char c - 0x30) else None)"

fun digits :: "string \<Rightarrow> nat \<Rightarrow> nat option" where
  "digits [] acc = Some acc"
| "digits (c # cs) acc = (case digit c of None \<Rightarrow> None | Some d \<Rightarrow> digits cs (10 * acc + d))"

definition toInt :: "string \<Rightarrow> int" where
  "toInt s =
     (let t = trimmed s;
          neg = (t \<noteq> [] \<and> hd t = CHR ''-'');
          ds = (if t \<noteq> [] \<and> (hd t = CHR ''-'' \<or> hd t = CHR ''+'') then tl t else t)
      in if ds = [] then 0
         else case digits ds 0 of
                None \<Rightarrow> 0
              | Some n \<Rightarrow>
                  (let v = (if neg then - int n else int n)
                   in if - (2 ^ 31) \<le> v \<and> v < 2 ^ 31 then v else 0))"

text \<open>\<^verbatim>\<open>QString::number(int)\<close> and \<^verbatim>\<open>TagLib::String::number(int)\<close>: the decimal digits.\<close>

fun digits_of :: "nat \<Rightarrow> string" where
  "digits_of n =
     (if n < 10 then [char_of (0x30 + n)] else digits_of (n div 10) @ [char_of (0x30 + n mod 10)])"

declare digits_of.simps [simp del]

definition number :: "int \<Rightarrow> string" where
  "number n = (if n < 0 then CHR ''-'' # digits_of (nat (- n)) else digits_of (nat n))"

subsection \<open>The record \<^verbatim>\<open>cpb::tagreader::SongMetadata\<close>\<close>

text \<open>
  The fields that the modelled statements read or assign. The integer fields are
  \<^verbatim>\<open>int32\<close>, \<open>rating\<close> and \<open>bpm\<close> are \<^verbatim>\<open>float\<close>.
\<close>

record SongMetadata =
  valid :: bool
  title :: string
  artist :: string
  album :: string
  genre :: string
  comment :: string
  albumartist :: string
  composer :: string
  performer :: string
  grouping :: string
  lyrics :: string
  compilation :: bool
  year :: int
  track :: int
  disc :: int
  bpm :: fp
  rating :: fp
  playcount :: int
  score :: int
  bitrate :: int
  samplerate :: int
  lastplayed :: int

text \<open>A record with every field zero, empty or false, for the concrete statements.\<close>

definition blank :: SongMetadata where
  "blank = \<lparr>valid = False, title = [], artist = [], album = [], genre = [], comment = [],
     albumartist = [], composer = [], performer = [], grouping = [], lyrics = [],
     compilation = False, year = 0, track = 0, disc = 0, bpm = Finite 0, rating = Finite 0,
     playcount = 0, score = 0, bitrate = 0, samplerate = 0, lastplayed = 0\<rparr>"

subsection \<open>What TagLib shows of an open file\<close>

text \<open>
  An ID3v2 frame, by its class: a text frame with its frame id and text, a user text frame
  (\<^verbatim>\<open>TXXX\<close>) with its description and its first value \<^verbatim>\<open>fieldList()[1]\<close>, a popularimeter
  (\<^verbatim>\<open>POPM\<close>) with its e-mail, rating and counter, an unsynchronised lyrics frame (\<^verbatim>\<open>USLT\<close>)
  with its description and text, and a frame of any other class with its frame id (a
  \<^verbatim>\<open>dynamic_cast\<close> to one of the classes above gives null on it).
\<close>

datatype Frame =
    TextIdentificationFrame string string
  | UserTextIdentificationFrame string string
  | PopularimeterFrame string int "32 word"
  | UnsynchronizedLyricsFrame string string
  | OtherFrame string

fun frameID :: "Frame \<Rightarrow> string" where
  "frameID (TextIdentificationFrame i t) = i"
| "frameID (UserTextIdentificationFrame d v) = ''TXXX''"
| "frameID (PopularimeterFrame e r c) = ''POPM''"
| "frameID (UnsynchronizedLyricsFrame d t) = ''USLT''"
| "frameID (OtherFrame i) = i"

text \<open>\<^verbatim>\<open>frameListMap()[id]\<close>: the frames with that id, in the order of the tag.\<close>

definition frameListMap :: "Frame list \<Rightarrow> string \<Rightarrow> Frame list" where
  "frameListMap frames i = filter (\<lambda>f. frameID f = i) frames"

text \<open>\<^verbatim>\<open>Frame::toString()\<close> of a frame found under a text frame id.\<close>

fun toString :: "Frame \<Rightarrow> string" where
  "toString (TextIdentificationFrame i t) = t"
| "toString _ = []"

text \<open>
  The keyed stores: a Xiph comment maps a field name to its values, an APE tag maps an item
  key to the text values of the item, an ASF tag maps an attribute name to its attributes (as
  strings), and an MP4 tag has the integer pair of the \<^verbatim>\<open>disk\<close> atom and the string lists of
  the other atoms.
\<close>

type_synonym FieldListMap = "string \<Rightarrow> string list"
type_synonym ItemListMap = "string \<rightharpoonup> string list"
type_synonym AttributeListMap = "string \<rightharpoonup> string list"

record MP4_Tag =
  disk :: "(int \<times> int) option"
  items :: "string \<rightharpoonup> string list"

text \<open>
  The file, by its class. \<^verbatim>\<open>ID3v2Tag()\<close> and \<^verbatim>\<open>APETag()\<close> are null (\<open>None\<close>) when the
  file has no such tag; an open FLAC, MP4 or ASF file has its Xiph comment, MP4 tag or ASF
  tag. \<open>Ogg\<close> is a file whose \<^verbatim>\<open>tag()\<close> is a \<^verbatim>\<open>XiphComment\<close> (Vorbis, Opus, Speex, Ogg
  FLAC); \<open>Other\<close> is any other class (WAV, AIFF, TrueAudio).
\<close>

datatype File =
    MPEG "Frame list option"
  | FLAC FieldListMap
  | MP4 MP4_Tag
  | APE "ItemListMap option"
  | MPC "ItemListMap option"
  | WavPack "ItemListMap option"
  | ASF AttributeListMap
  | Ogg FieldListMap
  | Other

text \<open>
  The basic fields of \<^verbatim>\<open>fileref->tag()\<close>; \<^verbatim>\<open>year()\<close> and \<^verbatim>\<open>track()\<close> are unsigned. An
  open file has a tag: \<^verbatim>\<open>fileref->tag()\<close> is not null.
\<close>

record Tag =
  tag_title :: string
  tag_artist :: string
  tag_album :: string
  tag_genre :: string
  tag_comment :: string
  tag_year :: "32 word"
  tag_track :: "32 word"

record AudioProperties =
  ap_bitrate :: int
  ap_sampleRate :: int

record FileRef =
  ref_tag :: Tag
  ref_file :: File
  ref_audioProperties :: "AudioProperties option"

text \<open>
  An open file of a given class with empty basic fields and no audio properties, for the
  concrete statements.
\<close>

definition blank_tag :: Tag where
  "blank_tag = \<lparr>tag_title = [], tag_artist = [], tag_album = [], tag_genre = [],
     tag_comment = [], tag_year = 0, tag_track = 0\<rparr>"

definition open_file :: "File \<Rightarrow> FileRef" where
  "open_file f = \<lparr>ref_tag = blank_tag, ref_file = f, ref_audioProperties = None\<rparr>"

subsection \<open>The files\<close>

text \<open>
  The state outside the process: what \<^verbatim>\<open>factory_->GetFileRef(filename)\<close> opens for a file
  name (\<open>None\<close> when the file reference \<^verbatim>\<open>isNull()\<close>), whether \<^verbatim>\<open>fileref->save()\<close>
  succeeds on it, and the trace of the files opened and of the saves attempted.
\<close>

datatype event = Opened string | Saved string

record Files =
  contents :: "string \<Rightarrow> FileRef option"
  save_succeeds :: "string \<Rightarrow> bool"
  events :: "event list"

definition GetFileRef :: "Files \<Rightarrow> string \<Rightarrow> FileRef option \<times> Files" where
  "GetFileRef fs filename = (contents fs filename, fs\<lparr>events := events fs @ [Opened filename]\<rparr>)"

text \<open>\<^verbatim>\<open>fileref->save()\<close>: a save that succeeds replaces what the file name opens.\<close>

definition save :: "Files \<Rightarrow> string \<Rightarrow> FileRef \<Rightarrow> bool \<times> Files" where
  "save fs filename fileref =
     (if save_succeeds fs filename
      then (True, fs\<lparr>contents := (contents fs)(filename := Some fileref),
                      events := events fs @ [Saved filename]\<rparr>)
      else (False, fs\<lparr>events := events fs @ [Saved filename]\<rparr>))"

subsection \<open>Code outside this file\<close>

text \<open>The values of the FMPS parser: \<^verbatim>\<open>QVariant::Double\<close> or \<^verbatim>\<open>QVariant::String\<close>.\<close>

datatype QVariant = Double fp | String string

text \<open>
  The functions that \<^verbatim>\<open>tagreader.cpp\<close> calls and does not define are parameters of the
  model:
  \<^item> \<open>toFloat\<close> is \<^verbatim>\<open>QString::toFloat()\<close>;
  \<^item> \<open>QString_number\<close> is \<^verbatim>\<open>QString::number(double)\<close>;
  \<^item> \<open>TString_toInt\<close> is \<^verbatim>\<open>TagLib::String::toInt()\<close>;
  \<^item> \<open>Parse\<close> is \<^verbatim>\<open>FMPSParser::Parse\<close> followed by \<^verbatim>\<open>result()\<close>: \<open>None\<close> when \<^verbatim>\<open>Parse\<close>
    returns false, else the rows of values;
  \<^item> \<open>GME_ReadFile\<close> is the fallback reader \<^verbatim>\<open>GME::ReadFile\<close>.
\<close>

record Lib =
  toFloat :: "string \<Rightarrow> fp"
  QString_number :: "fp \<Rightarrow> string"
  TString_toInt :: "string \<Rightarrow> int"
  Parse :: "string \<Rightarrow> QVariant list list option"
  GME_ReadFile :: "string \<Rightarrow> SongMetadata \<Rightarrow> SongMetadata"

text \<open>
  Modelled from the spec: \<^verbatim>\<open>FMPSParser::is_empty()\<close> (\<^verbatim>\<open>fmpsparser.cpp\<close> is not among the
  sources). The parser gives rows of typed scalars, and a result with no usable first row is
  an absent field.
\<close>

definition is_empty :: "QVariant list list \<Rightarrow> bool" where
  "is_empty result = (result = [] \<or> hd result = [])"

text \<open>The product of a float and the \<^verbatim>\<open>int\<close> 100, computed in \<^verbatim>\<open>float\<close>.\<close>

fun times_100 :: "fp \<Rightarrow> fp" where
  "times_100 (Finite q) = to_float (Finite (q * 100))"
| "times_100 x = x"

subsection \<open>\<^verbatim>\<open>TagReader::ParseFMPSFrame\<close>\<close>

text \<open>
  The result is \<open>None\<close> where the C++ has no defined result: a play count or score outside
  the range of \<^verbatim>\<open>int\<close> (the conversion from floating point is undefined). \<^verbatim>\<open>set_rating\<close>
  takes a float, so the double of the variant is converted.
\<close>

definition ParseFMPSFrame :: "Lib \<Rightarrow> string \<Rightarrow> string \<Rightarrow> SongMetadata \<Rightarrow> SongMetadata option" where
  "ParseFMPSFrame L name val song =
     (case Parse L val of
        None \<Rightarrow> Some song
      | Some result \<Rightarrow>
          if is_empty result then Some song
          else if name = ''FMPS_Rating'' then
            (case hd result ! 0 of
               Double d \<Rightarrow> Some (song\<lparr>rating := to_float d\<rparr>)
             | String s \<Rightarrow> Some song)
          else if name = ''FMPS_Rating_User'' then
            (if fp_eq (rating song) (Finite (- 1)) \<and> 2 \<le> length (hd result) then
               (case hd result ! 1 of
                  Double d \<Rightarrow> Some (song\<lparr>rating := to_float d\<rparr>)
                | String s \<Rightarrow> Some song)
             else Some song)
          else if name = ''FMPS_PlayCount'' then
            (case hd result ! 0 of
               Double d \<Rightarrow> map_option (\<lambda>n. song\<lparr>playcount := n\<rparr>) (fp_to_int d)
             | String s \<Rightarrow> Some song)
          else if name = ''FMPS_PlayCount_User'' then
            (if playcount song = 0 \<and> 2 \<le> length (hd result) then
               (case hd result ! 1 of
                  Double d \<Rightarrow> map_option (\<lambda>n. song\<lparr>playcount := n\<rparr>) (fp_to_int d)
                | String s \<Rightarrow> Some song)
             else Some song)
          else if name = ''FMPS_Rating_Amarok_Score'' then
            (case hd result ! 0 of
               Double d \<Rightarrow>
                 map_option (\<lambda>n. song\<lparr>score := n\<rparr>) (fp_to_int (times_100 (to_float d)))
             | String s \<Rightarrow> Some song)
          else Some song)"

subsection \<open>\<^verbatim>\<open>TagReader::ParseOggTag\<close>\<close>

text \<open>
  The statements on the disc string, \<open>bpm\<close>, \<open>rating\<close>, \<open>playcount\<close> and \<open>score\<close>; the
  others assign text fields, the compilation string and the cover-art marker only. The result
  pairs the disc string with the record.
\<close>

definition ParseOggTag ::
    "Lib \<Rightarrow> FieldListMap \<Rightarrow> string \<Rightarrow> SongMetadata \<Rightarrow> (string \<times> SongMetadata) option" where
  "ParseOggTag L m disc_text song =
     (let s1 = (if m ''BPM'' \<noteq> [] then song\<lparr>bpm := toFloat L (trimmed (hd (m ''BPM'')))\<rparr>
                else song);
          disc_text' = (if m ''DISCNUMBER'' \<noteq> [] then trimmed (hd (m ''DISCNUMBER''))
                        else disc_text);
          s2 = (if m ''FMPS_RATING'' \<noteq> [] \<and> fp_le (rating s1) (Finite 0)
                then s1\<lparr>rating := toFloat L (trimmed (hd (m ''FMPS_RATING'')))\<rparr> else s1)
      in case (if m ''FMPS_PLAYCOUNT'' \<noteq> [] \<and> playcount s2 \<le> 0
               then map_option (\<lambda>n. s2\<lparr>playcount := n\<rparr>)
                      (fp_to_int (toFloat L (trimmed (hd (m ''FMPS_PLAYCOUNT'')))))
               else Some s2) of
           None \<Rightarrow> None
         | Some s3 \<Rightarrow>
             (case (if m ''FMPS_RATING_AMAROK_SCORE'' \<noteq> [] \<and> score s3 \<le> 0
                    then map_option (\<lambda>n. s3\<lparr>score := n\<rparr>)
                           (fp_to_int (times_100
                              (toFloat L (trimmed (hd (m ''FMPS_RATING_AMAROK_SCORE''))))))
                    else Some s3) of
                None \<Rightarrow> None
              | Some s4 \<Rightarrow> Some (disc_text', s4)))"

subsection \<open>\<^verbatim>\<open>TagReader::ReadFile\<close>\<close>

text \<open>
  The model follows the statements of \<^verbatim>\<open>ReadFile\<close> that assign \<open>valid\<close>, \<open>year\<close>,
  \<open>track\<close>, \<open>disc\<close>, \<open>bpm\<close>, \<open>rating\<close>, \<open>playcount\<close>, \<open>score\<close>, \<open>bitrate\<close>,
  \<open>samplerate\<close> and \<open>lastplayed\<close>. The statements left out assign other fields only: the
  file name, size and times, the text fields (through \<^verbatim>\<open>Decode\<close>), the original year, the
  cover-art marker, the compilation flag, the length and the file type.
\<close>

text \<open>
  The guard that the APE, MP4 and ASF branches repeat for each native value:
  \<^verbatim>\<open>if (song->rating() <= 0 && rating > 0) song->set_rating(rating);\<close> and the same for
  the play count and the score.
\<close>

definition native_rating :: "fp \<Rightarrow> SongMetadata \<Rightarrow> SongMetadata" where
  "native_rating r song =
     (if fp_le (rating song) (Finite 0) \<and> fp_less (Finite 0) r then song\<lparr>rating := r\<rparr>
      else song)"

definition native_playcount :: "int \<Rightarrow> SongMetadata \<Rightarrow> SongMetadata" where
  "native_playcount p song =
     (if playcount song \<le> 0 \<and> 0 < p then song\<lparr>playcount := p\<rparr> else song)"

definition native_score :: "int \<Rightarrow> SongMetadata \<Rightarrow> SongMetadata" where
  "native_score c song = (if score song \<le> 0 \<and> 0 < c then song\<lparr>score := c\<rparr> else song)"

text \<open>
  The lambda \<^verbatim>\<open>parseApeTag\<close>: \<^verbatim>\<open>APE::Item::toString()\<close> is the first text value of the
  item, or the empty string. The play count and the score are converted to \<^verbatim>\<open>int\<close> before
  the guard.
\<close>

definition item_toString :: "ItemListMap \<Rightarrow> string \<Rightarrow> string" where
  "item_toString its k = (case its k of Some (v # vs) \<Rightarrow> v | _ \<Rightarrow> [])"

definition parseApeTag ::
    "Lib \<Rightarrow> ItemListMap \<Rightarrow> string \<Rightarrow> SongMetadata \<Rightarrow> (string \<times> SongMetadata) option" where
  "parseApeTag L its disc_text song =
     (let disc_text' = (if its ''DISC'' \<noteq> None
                        then number (TString_toInt L (item_toString its ''DISC''))
                        else disc_text);
          s1 = (if its ''FMPS_RATING'' \<noteq> None
                then native_rating (toFloat L (item_toString its ''FMPS_RATING'')) song
                else song)
      in case (if its ''FMPS_PLAYCOUNT'' \<noteq> None
               then map_option (\<lambda>p. native_playcount p s1)
                      (fp_to_int (toFloat L (item_toString its ''FMPS_PLAYCOUNT'')))
               else Some s1) of
           None \<Rightarrow> None
         | Some s2 \<Rightarrow>
             (case (if its ''FMPS_RATING_AMAROK_SCORE'' \<noteq> None
                    then map_option (\<lambda>c. native_score c s2)
                           (fp_to_int (times_100
                              (toFloat L (item_toString its ''FMPS_RATING_AMAROK_SCORE''))))
                    else Some s2) of
                None \<Rightarrow> None
              | Some s3 \<Rightarrow> Some (disc_text', s3)))"

text \<open>The loop over the \<^verbatim>\<open>TXXX\<close> frames (\<^verbatim>\<open>// Parse FMPS frames\<close>).\<close>

fun ReadFile_FMPS :: "Lib \<Rightarrow> Frame list \<Rightarrow> SongMetadata \<Rightarrow> SongMetadata option" where
  "ReadFile_FMPS L [] song = Some song"
| "ReadFile_FMPS L (UserTextIdentificationFrame d v # fs) song =
     (if take 5 d = ''FMPS_'' then
        (case ParseFMPSFrame L d v song of
           None \<Rightarrow> None
         | Some song' \<Rightarrow> ReadFile_FMPS L fs song')
      else ReadFile_FMPS L fs song)"
| "ReadFile_FMPS L (f # fs) song = ReadFile_FMPS L fs song"

text \<open>The \<^verbatim>\<open>POPM\<close> block (\<^verbatim>\<open>// Check POPM tags\<close>); the counter is an \<^verbatim>\<open>unsigned int\<close>.\<close>

definition ReadFile_POPM :: "Frame list \<Rightarrow> SongMetadata \<Rightarrow> SongMetadata" where
  "ReadFile_POPM popm song =
     (case popm of
        PopularimeterFrame e r c # fs \<Rightarrow>
          (let s1 = (if fp_le (rating song) (Finite 0) \<and> 0 < r
                     then song\<lparr>rating := ConvertPOPMRating r\<rparr> else song)
           in if playcount s1 \<le> 0 \<and> 0 < unat c then s1\<lparr>playcount := sint c\<rparr> else s1)
      | _ \<Rightarrow> song)"

text \<open>The branch of an MPEG file with an ID3v2 tag.\<close>

definition ReadFile_ID3v2 ::
    "Lib \<Rightarrow> Frame list \<Rightarrow> string \<Rightarrow> SongMetadata \<Rightarrow> (string \<times> SongMetadata) option" where
  "ReadFile_ID3v2 L frames disc_text song =
     (let disc_text' = (if frameListMap frames ''TPOS'' \<noteq> []
                        then trimmed (toString (hd (frameListMap frames ''TPOS'')))
                        else disc_text);
          s1 = (if frameListMap frames ''TBPM'' \<noteq> []
                then song\<lparr>bpm := toFloat L (trimmed (toString (hd (frameListMap frames ''TBPM''))))\<rparr>
                else song)
      in case ReadFile_FMPS L (frameListMap frames ''TXXX'') s1 of
           None \<Rightarrow> None
         | Some s2 \<Rightarrow> Some (disc_text', ReadFile_POPM (frameListMap frames ''POPM'') s2))"

text \<open>The branch of an MP4 file: \<^verbatim>\<open>toStringList().toString('\n')\<close> joins the values.\<close>

fun join :: "string \<Rightarrow> string list \<Rightarrow> string" where
  "join sep [] = []"
| "join sep [x] = x"
| "join sep (x # xs) = x @ sep @ join sep xs"

definition ReadFile_MP4 ::
    "Lib \<Rightarrow> MP4_Tag \<Rightarrow> string \<Rightarrow> SongMetadata \<Rightarrow> (string \<times> SongMetadata) option" where
  "ReadFile_MP4 L t disc_text song =
     (let disc_text' = (case disk t of Some (a, b) \<Rightarrow> number a | None \<Rightarrow> disc_text);
          s1 = (case items t ''----:com.apple.iTunes:FMPS_Rating'' of
                  Some vs \<Rightarrow> native_rating (toFloat L (join [CHR 0x0A] vs)) song
                | None \<Rightarrow> song)
      in case (case items t ''----:com.apple.iTunes:FMPS_Playcount'' of
                 Some vs \<Rightarrow>
                   map_option (\<lambda>p. native_playcount p s1)
                     (fp_to_int (toFloat L (join [CHR 0x0A] vs)))
               | None \<Rightarrow> Some s1) of
           None \<Rightarrow> None
         | Some s2 \<Rightarrow>
             (case (case items t ''----:com.apple.iTunes:FMPS_Rating_Amarok_Score'' of
                      Some vs \<Rightarrow>
                        map_option (\<lambda>c. native_score c s2)
                          (fp_to_int (times_100 (toFloat L (join [CHR 0x0A] vs))))
                    | None \<Rightarrow> Some s2) of
                None \<Rightarrow> None
              | Some s3 \<Rightarrow> Some (disc_text', s3)))"

text \<open>The branch of an ASF file; an attribute list that is present and empty is skipped.\<close>

definition ReadFile_ASF :: "Lib \<Rightarrow> AttributeListMap \<Rightarrow> SongMetadata \<Rightarrow> SongMetadata option" where
  "ReadFile_ASF L attrs song =
     (let s1 = (case attrs ''FMPS/Rating'' of
                  Some (a # as) \<Rightarrow> native_rating (toFloat L a) song
                | _ \<Rightarrow> song);
          s2 = (case attrs ''FMPS/Playcount'' of
                  Some (a # as) \<Rightarrow> native_playcount (toInt a) s1
                | _ \<Rightarrow> s1)
      in case attrs ''FMPS/Rating_Amarok_Score'' of
           Some (a # as) \<Rightarrow>
             map_option (\<lambda>c. native_score c s2) (fp_to_int (times_100 (toFloat L a)))
         | _ \<Rightarrow> Some s2)"

text \<open>The resolution of the disc string.\<close>

definition ReadFile_disc :: "string \<Rightarrow> SongMetadata \<Rightarrow> SongMetadata" where
  "ReadFile_disc disc_text song =
     (if disc_text \<noteq> [] then
        (let i = indexOf disc_text CHR ''/''
         in if i \<noteq> - 1 then song\<lparr>disc := toInt (left disc_text i)\<rparr>
            else song\<lparr>disc := toInt disc_text\<rparr>)
      else song)"

text \<open>The macro \<^verbatim>\<open>SetDefault(field)\<close>, on the integer fields and on \<open>bpm\<close>.\<close>

definition SetDefault :: "int \<Rightarrow> int" where
  "SetDefault v = (if v \<le> 0 then - 1 else v)"

definition SetDefault_float :: "fp \<Rightarrow> fp" where
  "SetDefault_float v = (if fp_le v (Finite 0) then Finite (- 1) else v)"

definition ReadFile_SetDefault :: "SongMetadata \<Rightarrow> SongMetadata" where
  "ReadFile_SetDefault song =
     song\<lparr>track := SetDefault (track song),
          disc := SetDefault (disc song),
          bpm := SetDefault_float (bpm song),
          year := SetDefault (year song),
          bitrate := SetDefault (bitrate song),
          samplerate := SetDefault (samplerate song),
          lastplayed := SetDefault (lastplayed song)\<rparr>"

text \<open>
  The end of \<^verbatim>\<open>ReadFile\<close>, from the disc string on: the disc, the audio properties and
  the defaults.
\<close>

definition ReadFile_end :: "FileRef \<Rightarrow> string \<Rightarrow> SongMetadata \<Rightarrow> SongMetadata" where
  "ReadFile_end fileref disc_text song =
     (let s1 = ReadFile_disc disc_text song;
          s2 = (case ref_audioProperties fileref of
                  Some ap \<Rightarrow> s1\<lparr>bitrate := ap_bitrate ap, samplerate := ap_sampleRate ap\<rparr>
                | None \<Rightarrow> s1)
      in ReadFile_SetDefault s2)"

text \<open>
  \<^verbatim>\<open>ReadFile\<close>. The result is \<open>None\<close> where the C++ has no defined result:
  an undefined conversion to \<^verbatim>\<open>int\<close>, or \<^verbatim>\<open>parseApeTag\<close> called with the null \<^verbatim>\<open>APETag()\<close>
  of a file without an APE tag.
\<close>

definition ReadFile_branch ::
    "Lib \<Rightarrow> File \<Rightarrow> SongMetadata \<Rightarrow> (string \<times> SongMetadata) option" where
  "ReadFile_branch L f song =
     (case f of
        Ogg m \<Rightarrow> ParseOggTag L m [] song
      | MPEG None \<Rightarrow> Some ([], song)
      | MPEG (Some frames) \<Rightarrow> ReadFile_ID3v2 L frames [] song
      | FLAC m \<Rightarrow> ParseOggTag L m [] song
      | MP4 t \<Rightarrow> ReadFile_MP4 L t [] song
      | APE None \<Rightarrow> None
      | APE (Some its) \<Rightarrow> parseApeTag L its [] song
      | MPC None \<Rightarrow> None
      | MPC (Some its) \<Rightarrow> parseApeTag L its [] song
      | WavPack None \<Rightarrow> None
      | WavPack (Some its) \<Rightarrow> parseApeTag L its [] song
      | ASF attrs \<Rightarrow> map_option (Pair []) (ReadFile_ASF L attrs song)
      | Other \<Rightarrow> Some ([], song))"

definition ReadFile ::
    "Lib \<Rightarrow> Files \<Rightarrow> string \<Rightarrow> SongMetadata \<Rightarrow> SongMetadata option" where
  "ReadFile L fs filename song =
     (case fst (GetFileRef fs filename) of
        None \<Rightarrow> Some (GME_ReadFile L filename song)
      | Some fileref \<Rightarrow>
          (let s1 = song\<lparr>year := sint (tag_year (ref_tag fileref)),
                         track := sint (tag_track (ref_tag fileref)),
                         valid := True\<rparr>
           in case ReadFile_branch L (ref_file fileref) s1 of
                None \<Rightarrow> None
              | Some (disc_text, s2) \<Rightarrow> Some (ReadFile_end fileref disc_text s2)))"

subsection \<open>TagLib setters\<close>

text \<open>\<^verbatim>\<open>TagLib::String::upper()\<close>: the letters a to z become A to Z.\<close>

definition upper :: "string \<Rightarrow> string" where
  "upper s = map (\<lambda>c. if 0x61 \<le> (of_char c :: nat) \<and> (of_char c :: nat) \<le> 0x7A
                       then char_of ((of_char c :: nat) - 0x20) else c) s"

text \<open>
  \<^verbatim>\<open>XiphComment::addField(key, value, true)\<close> and \<^verbatim>\<open>XiphComment::removeFields(key)\<close>: the
  field names are kept in upper case, and an empty value is not added.
\<close>

definition addField :: "string \<Rightarrow> string \<Rightarrow> FieldListMap \<Rightarrow> FieldListMap" where
  "addField key val m =
     (let m1 = m(upper key := [])
      in if key \<noteq> [] \<and> val \<noteq> [] then m1(upper key := m1 (upper key) @ [val]) else m1)"

definition removeFields :: "string \<Rightarrow> FieldListMap \<Rightarrow> FieldListMap" where
  "removeFields key m = m(upper key := [])"

text \<open>
  \<^verbatim>\<open>APE::Tag::setItem(key, item)\<close> and \<^verbatim>\<open>APE::Tag::addValue(key, value, true)\<close>: the item
  keys are kept in upper case; \<^verbatim>\<open>addValue\<close> removes the item and sets it again unless the
  value is empty.
\<close>

definition setItem :: "string \<Rightarrow> string list \<Rightarrow> ItemListMap \<Rightarrow> ItemListMap" where
  "setItem key vals its = its(upper key \<mapsto> vals)"

definition addValue :: "string \<Rightarrow> string \<Rightarrow> ItemListMap \<Rightarrow> ItemListMap" where
  "addValue key val its =
     (let its1 = its(upper key := None)
      in if val = [] then its1 else setItem key [val] its1)"

text \<open>\<^verbatim>\<open>ASF::Tag::addAttribute(name, attribute)\<close> appends to the attributes of the name.\<close>

definition addAttribute :: "string \<Rightarrow> string \<Rightarrow> AttributeListMap \<Rightarrow> AttributeListMap" where
  "addAttribute name val attrs =
     (case attrs name of None \<Rightarrow> attrs(name \<mapsto> [val]) | Some as \<Rightarrow> attrs(name \<mapsto> as @ [val]))"

subsection \<open>\<^verbatim>\<open>TagReader::SetUserTextFrame\<close>, \<^verbatim>\<open>SetTextFrame\<close>, \<^verbatim>\<open>SetUnsyncLyricsFrame\<close>\<close>

text \<open>
  \<^verbatim>\<open>UserTextIdentificationFrame::find\<close> followed by \<^verbatim>\<open>removeFrame\<close>: the first user text
  frame with the description leaves the tag.
\<close>

fun remove_found :: "string \<Rightarrow> Frame list \<Rightarrow> Frame list" where
  "remove_found description [] = []"
| "remove_found description (UserTextIdentificationFrame d v # fs) =
     (if d = description then fs
      else UserTextIdentificationFrame d v # remove_found description fs)"
| "remove_found description (f # fs) = f # remove_found description fs"

definition SetUserTextFrame :: "string \<Rightarrow> string \<Rightarrow> Frame list \<Rightarrow> Frame list" where
  "SetUserTextFrame description val frames =
     remove_found description frames @ [UserTextIdentificationFrame description val]"

text \<open>
  \<^verbatim>\<open>SetTextFrame\<close>: the frames with the id are rendered into \<^verbatim>\<open>frames_buffer\<close> and removed;
  an empty buffer gets an empty text frame; each buffered frame is parsed again and added at
  the end of the tag, the first one with the new text.
\<close>

definition SetTextFrame :: "string \<Rightarrow> string \<Rightarrow> Frame list \<Rightarrow> Frame list" where
  "SetTextFrame i val frames =
     (let frames_buffer = frameListMap frames i;
          rest = filter (\<lambda>f. frameID f \<noteq> i) frames
      in case frames_buffer of
           [] \<Rightarrow> rest @ [TextIdentificationFrame i val]
         | f # fs \<Rightarrow> rest @ TextIdentificationFrame i val # fs)"

text \<open>
  \<^verbatim>\<open>SetUnsyncLyricsFrame\<close>: the same on \<^verbatim>\<open>USLT\<close>; the frame made for an empty buffer has the
  description \<^verbatim>\<open>Clementine editor\<close>. A first frame of another class keeps no description.
\<close>

definition SetUnsyncLyricsFrame :: "string \<Rightarrow> Frame list \<Rightarrow> Frame list" where
  "SetUnsyncLyricsFrame val frames =
     (let frames_buffer = frameListMap frames ''USLT'';
          rest = filter (\<lambda>f. frameID f \<noteq> ''USLT'') frames
      in case frames_buffer of
           [] \<Rightarrow> rest @ [UnsynchronizedLyricsFrame ''Clementine editor'' val]
         | UnsynchronizedLyricsFrame d t # fs \<Rightarrow> rest @ UnsynchronizedLyricsFrame d val # fs
         | f # fs \<Rightarrow> rest @ UnsynchronizedLyricsFrame [] val # fs)"

subsection \<open>\<^verbatim>\<open>TagReader::GetPOPMFrameFromTag\<close>\<close>

text \<open>
  The function returns a pointer into the tag; here, the tag (with the new frame, if one was
  made) and the position of the frame in it.
\<close>

definition GetPOPMFrameFromTag :: "Frame list \<Rightarrow> Frame list \<times> nat" where
  "GetPOPMFrameFromTag frames =
     (case frameListMap frames ''POPM'' of
        PopularimeterFrame e r c # fs \<Rightarrow>
          (frames, length (takeWhile (\<lambda>f. frameID f \<noteq> ''POPM'') frames))
      | _ \<Rightarrow> (frames @ [PopularimeterFrame [] 0 0], length frames))"

fun setCounter :: "32 word \<Rightarrow> Frame \<Rightarrow> Frame" where
  "setCounter n (PopularimeterFrame e r c) = PopularimeterFrame e r n"
| "setCounter n f = f"

fun setRating :: "int \<Rightarrow> Frame \<Rightarrow> Frame" where
  "setRating n (PopularimeterFrame e r c) = PopularimeterFrame e n c"
| "setRating n f = f"

subsection \<open>\<^verbatim>\<open>TagReader::SetVorbisComments\<close> and the FMPS fields of a Xiph comment\<close>

definition SetVorbisComments :: "Lib \<Rightarrow> SongMetadata \<Rightarrow> FieldListMap \<Rightarrow> FieldListMap" where
  "SetVorbisComments L song m =
     (let m1 = addField ''COMPOSER'' (composer song) m;
          m2 = addField ''PERFORMER'' (performer song) m1;
          m3 = addField ''CONTENT GROUP'' (grouping song) m2;
          m4 = addField ''BPM''
                 (if fp_le (bpm song) (Finite (0 - 1)) then [] else QString_number L (bpm song))
                 m3;
          m5 = addField ''DISCNUMBER'' (if disc song \<le> 0 then [] else number (disc song)) m4;
          m6 = addField ''COMPILATION'' (if compilation song then number 1 else []) m5;
          m7 = addField ''ALBUMARTIST'' (albumartist song) m6;
          m8 = removeFields ''ALBUM ARTIST'' m7;
          m9 = addField ''LYRICS'' (lyrics song) m8
      in removeFields ''UNSYNCEDLYRICS'' m9)"

definition SetFMPSStatisticsVorbisComments ::
    "Lib \<Rightarrow> SongMetadata \<Rightarrow> FieldListMap \<Rightarrow> FieldListMap" where
  "SetFMPSStatisticsVorbisComments L song m =
     (let m1 = (if playcount song \<noteq> 0
                then addField ''FMPS_PLAYCOUNT'' (number (playcount song)) m else m)
      in if score song \<noteq> 0
         then addField ''FMPS_RATING_AMAROK_SCORE''
                (QString_number L (to_double (of_int (score song) / 100))) m1
         else m1)"

definition SetFMPSRatingVorbisComments ::
    "Lib \<Rightarrow> SongMetadata \<Rightarrow> FieldListMap \<Rightarrow> FieldListMap" where
  "SetFMPSRatingVorbisComments L song m =
     addField ''FMPS_RATING'' (QString_number L (rating song)) m"

subsection \<open>\<^verbatim>\<open>TagReader::SaveFile\<close>\<close>

text \<open>The lambda \<^verbatim>\<open>saveApeTag\<close>.\<close>

definition saveApeTag :: "Lib \<Rightarrow> SongMetadata \<Rightarrow> ItemListMap \<Rightarrow> ItemListMap" where
  "saveApeTag L song its =
     (let i1 = addValue ''disc'' (if disc song \<le> 0 then [] else number (disc song)) its;
          i2 = addValue ''bpm''
                 (if fp_le (bpm song) (Finite (0 - 1)) then [] else QString_number L (bpm song))
                 i1;
          i3 = setItem ''composer'' [composer song] i2;
          i4 = setItem ''grouping'' [grouping song] i3;
          i5 = setItem ''performer'' [performer song] i4;
          i6 = setItem ''album artist'' [albumartist song] i5;
          i7 = setItem ''lyrics'' [lyrics song] i6
      in addValue ''compilation'' (if compilation song then number 1 else []) i7)"

text \<open>The basic fields; \<^verbatim>\<open>setYear\<close> and \<^verbatim>\<open>setTrack\<close> take an \<^verbatim>\<open>unsigned int\<close>.\<close>

definition SaveFile_basic :: "SongMetadata \<Rightarrow> Tag \<Rightarrow> Tag" where
  "SaveFile_basic song t =
     t\<lparr>tag_title := title song,
       tag_artist := artist song,
       tag_album := album song,
       tag_genre := genre song,
       tag_comment := comment song,
       tag_year := word_of_int (if year song \<le> 0 - 1 then 0 else year song),
       tag_track := word_of_int (if track song \<le> 0 - 1 then 0 else track song)\<rparr>"

text \<open>The frames of an MPEG file; \<^verbatim>\<open>ID3v2Tag(true)\<close> makes the tag when there is none.\<close>

definition SaveFile_ID3v2 :: "Lib \<Rightarrow> SongMetadata \<Rightarrow> Frame list \<Rightarrow> Frame list" where
  "SaveFile_ID3v2 L song t =
     (let t1 = SetTextFrame ''TPOS'' (if disc song \<le> 0 then [] else number (disc song)) t;
          t2 = SetTextFrame ''TBPM''
                 (if fp_le (bpm song) (Finite (0 - 1)) then [] else QString_number L (bpm song))
                 t1;
          t3 = SetTextFrame ''TCOM'' (composer song) t2;
          t4 = SetTextFrame ''TIT1'' (grouping song) t3;
          t5 = SetTextFrame ''TOPE'' (performer song) t4;
          t6 = SetUnsyncLyricsFrame (lyrics song) t5;
          t7 = SetTextFrame ''TPE2'' (albumartist song) t6
      in SetTextFrame ''TCMP'' (if compilation song then number 1 else []) t7)"

text \<open>
  The atoms of an MP4 file. \<^verbatim>\<open>TagLib::String::number(song.bpm())\<close> converts the float to
  \<^verbatim>\<open>int\<close>: \<open>None\<close> where that conversion is undefined.
\<close>

definition SaveFile_MP4 :: "SongMetadata \<Rightarrow> MP4_Tag \<Rightarrow> MP4_Tag option" where
  "SaveFile_MP4 song t =
     (case (if fp_le (bpm song) (Finite (0 - 1)) then Some ''0''
            else map_option number (fp_to_int (bpm song))) of
        None \<Rightarrow> None
      | Some tmpo \<Rightarrow>
          Some (t\<lparr>disk := Some (if disc song \<le> 0 - 1 then 0 else disc song, 0),
                  items := (items t)
                    (''tmpo'' \<mapsto> [tmpo],
                     CHR 0xA9 # ''wrt'' \<mapsto> [composer song],
                     CHR 0xA9 # ''grp'' \<mapsto> [grouping song],
                     CHR 0xA9 # ''lyr'' \<mapsto> [lyrics song],
                     ''aART'' \<mapsto> [albumartist song],
                     ''cpil'' \<mapsto> [if compilation song then ''1'' else ''0''])\<rparr>))"

definition SaveFile_tags :: "Lib \<Rightarrow> SongMetadata \<Rightarrow> File \<Rightarrow> File option" where
  "SaveFile_tags L song f =
     (case f of
        MPEG t \<Rightarrow> Some (MPEG (Some (SaveFile_ID3v2 L song (case t of None \<Rightarrow> [] | Some fr \<Rightarrow> fr))))
      | FLAC m \<Rightarrow> Some (FLAC (SetVorbisComments L song m))
      | MP4 t \<Rightarrow> map_option MP4 (SaveFile_MP4 song t)
      | APE t \<Rightarrow> Some (APE (Some (saveApeTag L song (case t of None \<Rightarrow> Map.empty | Some i \<Rightarrow> i))))
      | MPC t \<Rightarrow> Some (MPC (Some (saveApeTag L song (case t of None \<Rightarrow> Map.empty | Some i \<Rightarrow> i))))
      | WavPack t \<Rightarrow>
          Some (WavPack (Some (saveApeTag L song (case t of None \<Rightarrow> Map.empty | Some i \<Rightarrow> i))))
      | Ogg m \<Rightarrow> Some (Ogg (SetVorbisComments L song m))
      | ASF attrs \<Rightarrow> Some (ASF attrs)
      | Other \<Rightarrow> Some Other)"

definition SaveFile ::
    "Lib \<Rightarrow> Files \<Rightarrow> string option \<Rightarrow> SongMetadata \<Rightarrow> (bool \<times> Files) option" where
  "SaveFile L fs filename song =
     (case filename of
        None \<Rightarrow> Some (False, fs)
      | Some name \<Rightarrow>
          (case GetFileRef fs name of
             (None, fs1) \<Rightarrow> Some (False, fs1)
           | (Some fileref, fs1) \<Rightarrow>
               (case SaveFile_tags L song (ref_file fileref) of
                  None \<Rightarrow> None
                | Some f \<Rightarrow>
                    Some (save fs1 name
                            (fileref\<lparr>ref_tag := SaveFile_basic song (ref_tag fileref),
                                     ref_file := f\<rparr>)))))"

subsection \<open>\<^verbatim>\<open>TagReader::SaveSongStatisticsToFile\<close>\<close>

text \<open>The lambda \<^verbatim>\<open>saveApeSongStats\<close>.\<close>

definition saveApeSongStats :: "Lib \<Rightarrow> SongMetadata \<Rightarrow> ItemListMap \<Rightarrow> ItemListMap" where
  "saveApeSongStats L song its =
     (let its1 = (if score song \<noteq> 0
                  then setItem ''FMPS_Rating_Amarok_Score''
                         [QString_number L (to_double (of_int (score song) / 100))] its
                  else its)
      in if playcount song \<noteq> 0
         then setItem ''FMPS_PlayCount'' [number (playcount song)] its1
         else its1)"

text \<open>The branch of an MPEG file.\<close>

definition SaveSongStatistics_ID3v2 :: "Lib \<Rightarrow> SongMetadata \<Rightarrow> Frame list \<Rightarrow> Frame list" where
  "SaveSongStatistics_ID3v2 L song frames =
     (let t1 = (if playcount song \<noteq> 0 then
                  (let (t, i) = GetPOPMFrameFromTag
                                  (SetUserTextFrame ''FMPS_PlayCount'' (number (playcount song))
                                     frames)
                   in t[i := setCounter (word_of_int (playcount song)) (t ! i)])
                else frames)
      in if score song \<noteq> 0
         then SetUserTextFrame ''FMPS_Rating_Amarok_Score''
                (QString_number L (to_double (of_int (score song) / 100))) t1
         else t1)"

text \<open>
  The chain of casts: the new tags of the file, or \<open>None\<close> in the last branch
  (\<^verbatim>\<open>// Nothing to save: stop now\<close>).
\<close>

definition SaveSongStatistics_tags :: "Lib \<Rightarrow> SongMetadata \<Rightarrow> File \<Rightarrow> File option" where
  "SaveSongStatistics_tags L song f =
     (case f of
        MPEG t \<Rightarrow>
          Some (MPEG (Some (SaveSongStatistics_ID3v2 L song
                              (case t of None \<Rightarrow> [] | Some fr \<Rightarrow> fr))))
      | FLAC m \<Rightarrow> Some (FLAC (SetFMPSStatisticsVorbisComments L song m))
      | Ogg m \<Rightarrow> Some (Ogg (SetFMPSStatisticsVorbisComments L song m))
      | ASF attrs \<Rightarrow>
          Some (ASF
            (let a1 = (if playcount song \<noteq> 0
                       then addAttribute ''FMPS/Playcount'' (number (playcount song)) attrs
                       else attrs)
             in if score song \<noteq> 0
                then addAttribute ''FMPS/Rating_Amarok_Score''
                       (QString_number L (to_double (of_int (score song) / 100))) a1
                else a1))
      | MP4 t \<Rightarrow>
          Some (MP4
            (let t1 = (if score song \<noteq> 0
                       then t\<lparr>items := (items t)
                              (''----:com.apple.iTunes:FMPS_Rating_Amarok_Score'' \<mapsto>
                                 [QString_number L (to_double (of_int (score song) / 100))])\<rparr>
                       else t)
             in if playcount song \<noteq> 0
                then t1\<lparr>items := (items t1)
                          (''----:com.apple.iTunes:FMPS_Playcount'' \<mapsto>
                             [number (playcount song)])\<rparr>
                else t1))
      | APE t \<Rightarrow>
          Some (APE (Some (saveApeSongStats L song
                             (case t of None \<Rightarrow> Map.empty | Some i \<Rightarrow> i))))
      | MPC t \<Rightarrow>
          Some (MPC (Some (saveApeSongStats L song
                             (case t of None \<Rightarrow> Map.empty | Some i \<Rightarrow> i))))
      | WavPack t \<Rightarrow>
          Some (WavPack (Some (saveApeSongStats L song
                                 (case t of None \<Rightarrow> Map.empty | Some i \<Rightarrow> i))))
      | Other \<Rightarrow> None)"

definition SaveSongStatisticsToFile ::
    "Lib \<Rightarrow> Files \<Rightarrow> string option \<Rightarrow> SongMetadata \<Rightarrow> bool \<times> Files" where
  "SaveSongStatisticsToFile L fs filename song =
     (case filename of
        None \<Rightarrow> (False, fs)
      | Some name \<Rightarrow>
          (case GetFileRef fs name of
             (None, fs1) \<Rightarrow> (False, fs1)
           | (Some fileref, fs1) \<Rightarrow>
               (case SaveSongStatistics_tags L song (ref_file fileref) of
                  None \<Rightarrow> (True, fs1)
                | Some f \<Rightarrow> save fs1 name (fileref\<lparr>ref_file := f\<rparr>))))"

subsection \<open>\<^verbatim>\<open>TagReader::SaveSongRatingToFile\<close>\<close>

text \<open>The lambda \<^verbatim>\<open>saveApeSongRating\<close>.\<close>

definition saveApeSongRating :: "Lib \<Rightarrow> SongMetadata \<Rightarrow> ItemListMap \<Rightarrow> ItemListMap" where
  "saveApeSongRating L song its = setItem ''FMPS_Rating'' [QString_number L (rating song)] its"

text \<open>The branch of an MPEG file.\<close>

definition SaveSongRating_ID3v2 :: "Lib \<Rightarrow> SongMetadata \<Rightarrow> Frame list \<Rightarrow> Frame list" where
  "SaveSongRating_ID3v2 L song frames =
     (let (t, i) = GetPOPMFrameFromTag
                     (SetUserTextFrame ''FMPS_Rating'' (QString_number L (rating song)) frames)
      in t[i := setRating (ConvertToPOPMRating (rating song)) (t ! i)])"

definition SaveSongRating_tags :: "Lib \<Rightarrow> SongMetadata \<Rightarrow> File \<Rightarrow> File option" where
  "SaveSongRating_tags L song f =
     (case f of
        MPEG t \<Rightarrow>
          Some (MPEG (Some (SaveSongRating_ID3v2 L song (case t of None \<Rightarrow> [] | Some fr \<Rightarrow> fr))))
      | FLAC m \<Rightarrow> Some (FLAC (SetFMPSRatingVorbisComments L song m))
      | Ogg m \<Rightarrow> Some (Ogg (SetFMPSRatingVorbisComments L song m))
      | ASF attrs \<Rightarrow> Some (ASF (addAttribute ''FMPS/Rating'' (QString_number L (rating song)) attrs))
      | MP4 t \<Rightarrow>
          Some (MP4 (t\<lparr>items := (items t)
                        (''----:com.apple.iTunes:FMPS_Rating'' \<mapsto>
                           [QString_number L (rating song)])\<rparr>))
      | APE t \<Rightarrow>
          Some (APE (Some (saveApeSongRating L song
                             (case t of None \<Rightarrow> Map.empty | Some i \<Rightarrow> i))))
      | MPC t \<Rightarrow>
          Some (MPC (Some (saveApeSongRating L song
                             (case t of None \<Rightarrow> Map.empty | Some i \<Rightarrow> i))))
      | WavPack t \<Rightarrow>
          Some (WavPack (Some (saveApeSongRating L song
                                 (case t of None \<Rightarrow> Map.empty | Some i \<Rightarrow> i))))
      | Other \<Rightarrow> None)"

definition SaveSongRatingToFile ::
    "Lib \<Rightarrow> Files \<Rightarrow> string option \<Rightarrow> SongMetadata \<Rightarrow> bool \<times> Files" where
  "SaveSongRatingToFile L fs filename song =
     (case filename of
        None \<Rightarrow> (False, fs)
      | Some name \<Rightarrow>
          if fp_less (rating song) (Finite 0) then (True, fs)
          else
            (case GetFileRef fs name of
               (None, fs1) \<Rightarrow> (False, fs1)
             | (Some fileref, fs1) \<Rightarrow>
                 (case SaveSongRating_tags L song (ref_file fileref) of
                    None \<Rightarrow> (True, fs1)
                  | Some f \<Rightarrow> save fs1 name (fileref\<lparr>ref_file := f\<rparr>))))"

subsection \<open>What a statistics-only save may touch\<close>

text \<open>
  The words of the specification, for the comparison with \<open>SaveSongStatisticsToFile\<close>: a
  statistics-only save touches only the play count and score encodings, FMPS and, for ID3v2,
  the counter of the \<^verbatim>\<open>POPM\<close> frame. For an ID3v2 tag: the frames other than the two FMPS
  user text frames are the same, in the same order, up to the counters of the \<^verbatim>\<open>POPM\<close>
  frames and a \<^verbatim>\<open>POPM\<close> frame with rating 0 and no e-mail that may be added at the end; and
  the rating that \<open>ReadFile\<close> takes from the \<^verbatim>\<open>POPM\<close> frames is the same. For a keyed
  store: every key other than the two of the play count and of the score has the same
  values.
\<close>

fun statistics_frame :: "Frame \<Rightarrow> bool" where
  "statistics_frame (UserTextIdentificationFrame d v) =
     (d = ''FMPS_PlayCount'' \<or> d = ''FMPS_Rating_Amarok_Score'')"
| "statistics_frame f = False"

fun without_counter :: "Frame \<Rightarrow> Frame" where
  "without_counter (PopularimeterFrame e r c) = PopularimeterFrame e r 0"
| "without_counter f = f"

definition other_frames :: "Frame list \<Rightarrow> Frame list" where
  "other_frames frames = filter (\<lambda>f. \<not> statistics_frame f) (map without_counter frames)"

definition statistics_only_ID3v2 :: "Frame list \<Rightarrow> Frame list \<Rightarrow> bool" where
  "statistics_only_ID3v2 frames frames' =
     ((other_frames frames' = other_frames frames
       \<or> other_frames frames' = other_frames frames @ [PopularimeterFrame [] 0 0])
      \<and> (\<forall>s. rating (ReadFile_POPM (frameListMap frames' ''POPM'') s)
               = rating (ReadFile_POPM (frameListMap frames ''POPM'') s)))"

definition statistics_only_items :: "ItemListMap \<Rightarrow> ItemListMap \<Rightarrow> bool" where
  "statistics_only_items its its' =
     (\<forall>k. k \<notin> {''FMPS_PLAYCOUNT'', ''FMPS_RATING_AMAROK_SCORE''} \<longrightarrow> its' k = its k)"

definition statistics_only :: "File \<Rightarrow> File \<Rightarrow> bool" where
  "statistics_only f f' =
     (case (f, f') of
        (MPEG t, MPEG (Some frames')) \<Rightarrow>
          statistics_only_ID3v2 (case t of None \<Rightarrow> [] | Some frames \<Rightarrow> frames) frames'
      | (FLAC m, FLAC m') \<Rightarrow>
          (\<forall>k. k \<notin> {''FMPS_PLAYCOUNT'', ''FMPS_RATING_AMAROK_SCORE''} \<longrightarrow> m' k = m k)
      | (Ogg m, Ogg m') \<Rightarrow>
          (\<forall>k. k \<notin> {''FMPS_PLAYCOUNT'', ''FMPS_RATING_AMAROK_SCORE''} \<longrightarrow> m' k = m k)
      | (ASF a, ASF a') \<Rightarrow>
          (\<forall>k. k \<notin> {''FMPS/Playcount'', ''FMPS/Rating_Amarok_Score''} \<longrightarrow> a' k = a k)
      | (MP4 t, MP4 t') \<Rightarrow>
          disk t' = disk t
          \<and> (\<forall>k. k \<notin> {''----:com.apple.iTunes:FMPS_Playcount'',
                       ''----:com.apple.iTunes:FMPS_Rating_Amarok_Score''} \<longrightarrow>
                 items t' k = items t k)
      | (APE t, APE (Some its')) \<Rightarrow>
          statistics_only_items (case t of None \<Rightarrow> Map.empty | Some its \<Rightarrow> its) its'
      | (MPC t, MPC (Some its')) \<Rightarrow>
          statistics_only_items (case t of None \<Rightarrow> Map.empty | Some its \<Rightarrow> its) its'
      | (WavPack t, WavPack (Some its')) \<Rightarrow>
          statistics_only_items (case t of None \<Rightarrow> Map.empty | Some its \<Rightarrow> its) its'
      | _ \<Rightarrow> False)"

subsection \<open>Examples\<close>

text \<open>
  For the concrete statements: stand-ins for the outside functions that agree with them on the
  few strings used (\<open>5\<close> converts to 5.0; the FMPS values \<open>0.0\<close>, \<open>0.5\<close>, \<open>3\<close>,
  \<open>alice::0.75\<close> and \<open>alice::7\<close> parse to one row each; the fallback reader does not know
  the file), and a few files.
\<close>

definition example_lib :: Lib where
  "example_lib =
     \<lparr>toFloat = (\<lambda>s. if s = ''5'' then Finite 5 else Finite 0),
      QString_number = (\<lambda>x. if x = Finite (1 / 2) then ''0.5'' else ''0''),
      TString_toInt = (\<lambda>s. 0),
      Parse = (\<lambda>s. if s = ''0.0'' then Some [[Double (Finite 0)]]
                    else if s = ''0.5'' then Some [[Double (Finite (1 / 2))]]
                    else if s = ''3'' then Some [[Double (Finite 3)]]
                    else if s = ''alice::0.75''
                      then Some [[String ''alice'', Double (Finite (3 / 4))]]
                    else if s = ''alice::7'' then Some [[String ''alice'', Double (Finite 7)]]
                    else None),
      GME_ReadFile = (\<lambda>filename song. song)\<rparr>"

definition example_files :: Files where
  "example_files =
     \<lparr>contents = (\<lambda>filename.
        if filename = ''rated0.mp3'' then
          Some (open_file (MPEG (Some [UserTextIdentificationFrame ''FMPS_Rating'' ''0.0'',
                                        PopularimeterFrame [] 0xFF 0])))
        else if filename = ''rated.mp3'' then
          Some (open_file (MPEG (Some [UserTextIdentificationFrame ''FMPS_Rating'' ''0.5'',
                                        PopularimeterFrame [] 0xFF 3])))
        else if filename = ''five.ape'' then
          Some (open_file (APE (Some [''FMPS_RATING'' \<mapsto> [''5'']])))
        else if filename = ''plain.wav'' then Some (open_file Other)
        else None),
      save_succeeds = (\<lambda>filename. True),
      events = []\<rparr>"

section \<open>Lemmas and theorems\<close>

subsection \<open>The exponent and the rounding\<close>

lemma ilog2_bounds:
  assumes "0 < q"
  shows "2 powi ilog2 q \<le> q \<and> q < 2 powi (ilog2 q + 1)"
proof (cases "1 \<le> q")
  case True
  define n where "n = \<lfloor>q\<rfloor>"
  define b where "b = bitlen n"
  from True have n1: "1 \<le> n" by (simp add: n_def le_floor_iff)
  then have n0: "0 < n" by simp
  from bitlen_bounds [OF n0] have lo: "2 ^ nat (b - 1) \<le> n" and hi: "n < 2 ^ nat b"
    by (simp_all add: b_def)
  have b1: "1 \<le> b"
    using n0 bitlen_eq_zero_iff [of n] bitlen_nonneg [of n] unfolding b_def by arith
  have i: "ilog2 q = b - 1" using True by (simp add: ilog2_def n_def b_def)
  have "rat_of_int (2 ^ nat (b - 1)) \<le> rat_of_int n" using lo by (simp only: of_int_le_iff)
  also have "rat_of_int n \<le> q" by (simp add: n_def)
  finally have 1: "2 powi (b - 1) \<le> q" using b1 by (simp add: power_int_def)
  have "q < rat_of_int n + 1" using floor_correct [of q] by (simp add: n_def)
  also have "rat_of_int n + 1 = rat_of_int (n + 1)" by simp
  also have "\<dots> \<le> rat_of_int (2 ^ nat b)" using hi by (simp only: of_int_le_iff)
  finally have 2: "q < 2 powi b" using b1 by (simp add: power_int_def)
  from 1 2 show ?thesis by (simp add: i)
next
  case False
  with assms have q1: "q < 1" by simp
  define c where "c = \<lceil>1 / q\<rceil>"
  define b where "b = bitlen (c - 1)"
  have inv: "1 < 1 / q" using assms q1 by (simp add: field_simps)
  then have c2: "2 \<le> c" by (simp add: c_def le_ceiling_iff)
  then have m0: "0 < c - 1" by simp
  from bitlen_bounds [OF m0] have lo: "2 ^ nat (b - 1) \<le> c - 1" and hi: "c - 1 < 2 ^ nat b"
    by (simp_all add: b_def)
  have b1: "1 \<le> b"
    using m0 bitlen_eq_zero_iff [of "c - 1"] bitlen_nonneg [of "c - 1"] unfolding b_def by arith
  have i: "ilog2 q = - b" using False by (simp add: ilog2_def c_def b_def)
  have "1 / q \<le> rat_of_int c" by (simp add: c_def)
  also have "rat_of_int c \<le> rat_of_int (2 ^ nat b)" using hi by (simp only: of_int_le_iff)
  finally have "1 / q \<le> 2 ^ nat b" by simp
  then have "1 \<le> 2 ^ nat b * q" using assms by (simp add: field_simps)
  then have 1: "2 powi (- b) \<le> q" using b1
    by (simp add: power_int_def field_simps)
  have "rat_of_int (2 ^ nat (b - 1)) \<le> rat_of_int (c - 1)" using lo by (simp only: of_int_le_iff)
  also have "rat_of_int (c - 1) < 1 / q" unfolding c_def
    by (metis ceiling_correct diff_less_eq of_int_1 of_int_diff)
  finally have "2 ^ nat (b - 1) < 1 / q" by simp
  then have "2 ^ nat (b - 1) * q < 1" using assms by (simp add: field_simps)
  then have 2: "q < 2 powi (- b + 1)" using b1
    by (cases "b = 1") (simp_all add: power_int_def field_simps nat_diff_distrib)
  from 1 2 show ?thesis by (simp add: i)
qed

lemma round_half_even_nearest: "\<bar>of_int (round_half_even x) - x\<bar> \<le> 1 / 2"
proof -
  have "of_int \<lfloor>x\<rfloor> \<le> x" and "x < of_int \<lfloor>x\<rfloor> + 1"
    using floor_correct [of x] by simp_all
  then show ?thesis
    by (auto simp add: round_half_even_def Let_def abs_le_iff not_less)
qed

subsection \<open>Evaluating the rounding on numerals\<close>

lemma floor_rat_numeral: "\<lfloor>numeral a / numeral b :: rat\<rfloor> = numeral a div numeral b"
  by (metis floor_divide_of_int_eq of_int_numeral)

lemma ceiling_rat_numeral:
  "\<lceil>numeral a / numeral b :: rat\<rceil> = - (- numeral a div numeral b)"
proof -
  have "\<lceil>rat_of_int (numeral a) / rat_of_int (numeral b)\<rceil> =
          - \<lfloor>rat_of_int (- numeral a) / rat_of_int (numeral b)\<rfloor>"
    by (simp add: ceiling_def)
  also have "\<dots> = - (- numeral a div numeral b)"
    by (simp only: floor_divide_of_int_eq)
  finally show ?thesis by simp
qed

lemma bitlen_numeral: "bitlen (numeral n) = bitlen (numeral n div 2) + 1"
  by (subst compute_bitlen) simp

lemma bitlen_1: "bitlen 1 = 1"
  by (subst compute_bitlen) simp

lemmas fp_eval = to_double_def round_binary_def ilog2_def round_half_even_def Let_def
  floor_rat_numeral ceiling_rat_numeral bitlen_numeral bitlen_1 power_int_minus

subsection \<open>The literals of the rating codec, evaluated\<close>

lemma dbl_0: "to_double 0 = Finite 0"
  by (simp add: to_double_def round_binary_def)
lemma dbl_20: "to_double (20 / 100) = Finite (7205759403792794 / 36028797018963968)"
  by (simp add: fp_eval)
lemma dbl_40: "to_double (40 / 100) = Finite (7205759403792794 / 18014398509481984)"
  by (simp add: fp_eval)
lemma dbl_60: "to_double (60 / 100) = Finite (5404319552844595 / 9007199254740992)"
  by (simp add: fp_eval)
lemma dbl_80: "to_double (80 / 100) = Finite (7205759403792794 / 9007199254740992)"
  by (simp add: fp_eval)
lemma dbl_1: "to_double 1 = Finite 1"
  by (simp add: fp_eval)

lemma flt_0: "to_float (to_double 0) = Finite 0"
  by (simp add: dbl_0 round_binary_def)
lemma flt_20: "to_float (to_double (20 / 100)) = Finite (13421773 / 67108864)"
  by (simp add: fp_eval)
lemma flt_40: "to_float (to_double (40 / 100)) = Finite (13421773 / 33554432)"
  by (simp add: fp_eval)
lemma flt_60: "to_float (to_double (60 / 100)) = Finite (10066330 / 16777216)"
  by (simp add: fp_eval)
lemma flt_80: "to_float (to_double (80 / 100)) = Finite (13421773 / 16777216)"
  by (simp add: fp_eval)
lemma flt_1: "to_float (to_double 1) = Finite 1"
  by (simp add: fp_eval)

lemma ConvertPOPMRating_eq:
  "ConvertPOPMRating b =
     (if b < 0x01 then Finite 0
      else if b < 0x40 then Finite (13421773 / 67108864)
      else if b < 0x80 then Finite (13421773 / 33554432)
      else if b < 0xC0 then Finite (10066330 / 16777216)
      else if b < 0xFC then Finite (13421773 / 16777216)
      else Finite 1)"
  unfolding ConvertPOPMRating_def flt_0 flt_20 flt_40 flt_60 flt_80 flt_1 by (rule refl)

lemma ConvertToPOPMRating_eq:
  "ConvertToPOPMRating r =
     (if fp_less r (Finite (7205759403792794 / 36028797018963968)) then 0x00
      else if fp_less r (Finite (7205759403792794 / 18014398509481984)) then 0x01
      else if fp_less r (Finite (5404319552844595 / 9007199254740992)) then 0x40
      else if fp_less r (Finite (7205759403792794 / 9007199254740992)) then 0x80
      else if fp_less r (Finite 1) then 0xC0
      else 0xFF)"
  unfolding ConvertToPOPMRating_def dbl_20 dbl_40 dbl_60 dbl_80 dbl_1 by (rule refl)

subsection \<open>Floats of magnitude at least 1/8 are multiples of \<open>2 powi - 26\<close>\<close>

lemma ilog2_ge_m3: assumes "1 / 8 \<le> q" shows "- 3 \<le> ilog2 q"
proof (cases "1 \<le> q")
  case True
  then show ?thesis using bitlen_nonneg [of "\<lfloor>q\<rfloor>"] by (simp add: ilog2_def)
next
  case False
  from assms have qpos: "0 < q" by simp
  have "1 / q \<le> 8" using assms qpos by (simp add: field_simps)
  then have "\<lceil>1 / q\<rceil> \<le> 8" by (simp add: ceiling_le_iff)
  then have "\<lceil>1 / q\<rceil> - 1 < 2 ^ nat 3" by simp
  then have "bitlen (\<lceil>1 / q\<rceil> - 1) \<le> 3" by (simp add: bitlen_le_iff_power)
  with False show ?thesis by (simp add: ilog2_def)
qed

lemma powi_shift:
  assumes "- int n \<le> e" shows "(2::rat) powi e = 2 ^ nat (e + int n) / 2 ^ n"
proof -
  have "(2::rat) powi e = 2 powi ((e + int n) + (- int n))" by simp
  also have "\<dots> = 2 powi (e + int n) * 2 powi (- int n)"
    by (rule power_int_add) simp
  also have "(2::rat) powi (e + int n) = 2 ^ nat (e + int n)"
    using assms by (simp add: power_int_nonneg_exp)
  also have "(2::rat) powi (- int n) = inverse (2 ^ n)"
    by (simp add: power_int_minus)
  finally show ?thesis by (simp add: divide_inverse)
qed

lemma float_grid:
  assumes fx: "is_float (Finite q)" and lo: "1 / 8 \<le> q"
  shows "\<exists>k::int. q = of_int k / 67108864"
proof -
  from lo have q0: "q \<noteq> 0" and qabs: "\<bar>q\<bar> = q" by simp_all
  define e where "e = max (ilog2 q - 23) (- 149)"
  define K where "K = round_half_even (q / 2 powi e)"
  from fx q0 qabs have "q = of_int K * 2 powi e"
    by (simp add: is_float_def round_binary_def Let_def e_def K_def split: if_splits)
  moreover have "- 26 \<le> e" using ilog2_ge_m3 [OF lo] by (simp add: e_def)
  then have "(2::rat) powi e = 2 ^ nat (e + 26) / 2 ^ 26"
    using powi_shift [of 26 e] by simp
  ultimately have "q = of_int (K * 2 ^ nat (e + 26)) / 67108864" by simp
  then show ?thesis by blast
qed

lemma grid_less:
  assumes "q = rat_of_int k / 67108864"
  shows "(q < t) = (k < \<lceil>t * 67108864\<rceil>)"
proof -
  have "(q < t) = (rat_of_int k < t * 67108864)"
    unfolding assms by (simp add: field_simps)
  then show ?thesis by (simp only: less_ceiling_iff)
qed

lemma thr_20:
  assumes "is_float (Finite q)"
  shows "(q < 7205759403792794 / 36028797018963968) = (q < 20 / 100)"
proof (cases "1 / 8 \<le> q")
  case False
  then show ?thesis by simp
next
  case True
  from float_grid [OF assms True] obtain k :: int where q: "q = of_int k / 67108864" ..
  show ?thesis
    by (simp only: grid_less [OF q]) (simp add: ceiling_rat_numeral)
qed

lemma thr_40:
  assumes "is_float (Finite q)"
  shows "(q < 7205759403792794 / 18014398509481984) = (q < 40 / 100)"
proof (cases "1 / 8 \<le> q")
  case False
  then show ?thesis by simp
next
  case True
  from float_grid [OF assms True] obtain k :: int where q: "q = of_int k / 67108864" ..
  show ?thesis
    by (simp only: grid_less [OF q]) (simp add: ceiling_rat_numeral)
qed

lemma thr_60:
  assumes "is_float (Finite q)"
  shows "(q < 5404319552844595 / 9007199254740992) = (q < 60 / 100)"
proof (cases "1 / 8 \<le> q")
  case False
  then show ?thesis by simp
next
  case True
  from float_grid [OF assms True] obtain k :: int where q: "q = of_int k / 67108864" ..
  show ?thesis
    by (simp only: grid_less [OF q]) (simp add: ceiling_rat_numeral)
qed

lemma thr_80:
  assumes "is_float (Finite q)"
  shows "(q < 7205759403792794 / 9007199254740992) = (q < 80 / 100)"
proof (cases "1 / 8 \<le> q")
  case False
  then show ?thesis by simp
next
  case True
  from float_grid [OF assms True] obtain k :: int where q: "q = of_int k / 67108864" ..
  show ?thesis
    by (simp only: grid_less [OF q]) (simp add: ceiling_rat_numeral)
qed

lemma ConvertToPOPMRating_decimal:
  assumes "is_float r"
  shows "ConvertToPOPMRating r =
     (if fp_less r (Finite (20 / 100)) then 0x00
      else if fp_less r (Finite (40 / 100)) then 0x01
      else if fp_less r (Finite (60 / 100)) then 0x40
      else if fp_less r (Finite (80 / 100)) then 0x80
      else if fp_less r (Finite 1) then 0xC0
      else 0xFF)"
proof (cases r)
  case (Finite q)
  with assms have f: "is_float (Finite q)" by simp
  show ?thesis
    unfolding ConvertToPOPMRating_eq Finite fp_less.simps
      thr_20 [OF f] thr_40 [OF f] thr_60 [OF f] thr_80 [OF f] by (rule refl)
qed (simp_all add: ConvertToPOPMRating_eq)

subsection \<open>The rating codec\<close>

lemma near_0: "to_float (Finite 0) = Finite 0"
  by (simp add: round_binary_def)
lemma near_20: "to_float (Finite (20 / 100)) = Finite (13421773 / 67108864)"
  by (simp add: fp_eval)
lemma near_40: "to_float (Finite (40 / 100)) = Finite (13421773 / 33554432)"
  by (simp add: fp_eval)
lemma near_60: "to_float (Finite (60 / 100)) = Finite (10066330 / 16777216)"
  by (simp add: fp_eval)
lemma near_80: "to_float (Finite (80 / 100)) = Finite (13421773 / 16777216)"
  by (simp add: fp_eval)
lemma near_1: "to_float (Finite 1) = Finite 1"
  by (simp add: fp_eval)

lemma ConvertPOPMRating_nearest:
  "ConvertPOPMRating b =
     (if b < 0x01 then to_float (Finite 0)
      else if b < 0x40 then to_float (Finite (20 / 100))
      else if b < 0x80 then to_float (Finite (40 / 100))
      else if b < 0xC0 then to_float (Finite (60 / 100))
      else if b < 0xFC then to_float (Finite (80 / 100))
      else to_float (Finite 1))"
  unfolding ConvertPOPMRating_eq near_0 near_20 near_40 near_60 near_80 near_1 by (rule refl)

lemma is_float_ConvertPOPMRating: "is_float (ConvertPOPMRating b)"
  unfolding ConvertPOPMRating_def flt_0 flt_20 flt_40 flt_60 flt_80 flt_1
  by (simp add: is_float_def fp_eval)

text \<open>
  Claim C2. For every byte \<open>b\<close> in \<open>0x00..0xFF\<close>, encoding the decoded rating gives the
  representative of the bucket of \<open>b\<close>: \<open>0x00\<close> for \<open>0x00\<close>, \<open>0x01\<close> for \<open>0x01..0x3F\<close>,
  \<open>0x40\<close> for \<open>0x40..0x7F\<close>, \<open>0x80\<close> for \<open>0x80..0xBF\<close>, \<open>0xC0\<close> for \<open>0xC0..0xFB\<close> and
  \<open>0xFF\<close> for \<open>0xFC..0xFF\<close>. In particular \<open>0x50\<close> decodes to the float 0.40 and encodes
  back to \<open>0x40\<close>, not to \<open>0x50\<close>.
\<close>

theorem ConvertToPOPMRating_ConvertPOPMRating_bucket:
  assumes "0x00 \<le> b" and "b \<le> 0xFF"
  shows "ConvertToPOPMRating (ConvertPOPMRating b) =
           (if b = 0x00 then 0x00 else if b \<le> 0x3F then 0x01 else if b \<le> 0x7F then 0x40
            else if b \<le> 0xBF then 0x80 else if b \<le> 0xFB then 0xC0 else 0xFF)
         \<and> ConvertPOPMRating 0x50 = to_float (Finite (40 / 100))
         \<and> ConvertToPOPMRating (ConvertPOPMRating 0x50) = 0x40"
proof -
  have "ConvertPOPMRating 0x50 = to_float (Finite (40 / 100))"
    by (simp only: ConvertPOPMRating_nearest) simp
  moreover have "ConvertToPOPMRating (ConvertPOPMRating 0x50) = 0x40"
    by (simp add: ConvertToPOPMRating_eq ConvertPOPMRating_eq)
  moreover from assms have "ConvertToPOPMRating (ConvertPOPMRating b) =
           (if b = 0x00 then 0x00 else if b \<le> 0x3F then 0x01 else if b \<le> 0x7F then 0x40
            else if b \<le> 0xBF then 0x80 else if b \<le> 0xFB then 0xC0 else 0xFF)"
    by (simp add: ConvertToPOPMRating_eq ConvertPOPMRating_eq)
  ultimately show ?thesis by (intro conjI)
qed

theorem ConvertToPOPMRating_ConvertPOPMRating_bucket_witness:
  "(0x00::int) \<le> 0x50 \<and> (0x50::int) \<le> 0xFF
   \<and> ConvertToPOPMRating (ConvertPOPMRating 0x50) = 0x40
   \<and> ConvertToPOPMRating (ConvertPOPMRating 0x3F) = 0x01"
  using ConvertToPOPMRating_ConvertPOPMRating_bucket [of "0x50"]
    ConvertToPOPMRating_ConvertPOPMRating_bucket [of "0x3F"]
  by simp

text \<open>
  Claim C3. \<open>ConvertPOPMRating\<close> is the decode table (\<open>0x00\<close> to 0.0, \<open>0x01..0x3F\<close> to 0.20,
  \<open>0x40..0x7F\<close> to 0.40, \<open>0x80..0xBF\<close> to 0.60, \<open>0xC0..0xFB\<close> to 0.80, \<open>0xFC..0xFF\<close> to
  1.0, each the float nearest to the decimal), and on every float \<open>ConvertToPOPMRating\<close> is
  the inverse table with the decimal thresholds: below 0.20 to \<open>0x00\<close>, below 0.40 to
  \<open>0x01\<close>, below 0.60 to \<open>0x40\<close>, below 0.80 to \<open>0x80\<close>, below 1.0 to \<open>0xC0\<close>, and 1.0 to
  \<open>0xFF\<close>.
\<close>

theorem ConvertPOPMRating_ConvertToPOPMRating_tables:
  "(0x00 \<le> b \<and> b \<le> 0xFF \<longrightarrow>
      ConvertPOPMRating b =
        (if b = 0x00 then to_float (Finite 0)
         else if b \<le> 0x3F then to_float (Finite (20 / 100))
         else if b \<le> 0x7F then to_float (Finite (40 / 100))
         else if b \<le> 0xBF then to_float (Finite (60 / 100))
         else if b \<le> 0xFB then to_float (Finite (80 / 100))
         else to_float (Finite 1)))
   \<and> (is_float r \<longrightarrow>
      ConvertToPOPMRating r =
        (if fp_less r (Finite (20 / 100)) then 0x00
         else if fp_less r (Finite (40 / 100)) then 0x01
         else if fp_less r (Finite (60 / 100)) then 0x40
         else if fp_less r (Finite (80 / 100)) then 0x80
         else if fp_less r (Finite 1) then 0xC0
         else 0xFF))
   \<and> ConvertToPOPMRating (Finite 1) = 0xFF"
proof (intro conjI impI)
  assume "0x00 \<le> b \<and> b \<le> 0xFF"
  then show "ConvertPOPMRating b =
        (if b = 0x00 then to_float (Finite 0)
         else if b \<le> 0x3F then to_float (Finite (20 / 100))
         else if b \<le> 0x7F then to_float (Finite (40 / 100))
         else if b \<le> 0xBF then to_float (Finite (60 / 100))
         else if b \<le> 0xFB then to_float (Finite (80 / 100))
         else to_float (Finite 1))"
    by (simp only: ConvertPOPMRating_nearest) simp
next
  assume "is_float r"
  then show "ConvertToPOPMRating r =
        (if fp_less r (Finite (20 / 100)) then 0x00
         else if fp_less r (Finite (40 / 100)) then 0x01
         else if fp_less r (Finite (60 / 100)) then 0x40
         else if fp_less r (Finite (80 / 100)) then 0x80
         else if fp_less r (Finite 1) then 0xC0
         else 0xFF)"
    by (rule ConvertToPOPMRating_decimal)
next
  show "ConvertToPOPMRating (Finite 1) = 0xFF"
    by (simp add: ConvertToPOPMRating_eq)
qed

theorem ConvertPOPMRating_ConvertToPOPMRating_tables_witness:
  "(0x00::int) \<le> 0xC0 \<and> (0xC0::int) \<le> 0xFF
   \<and> ConvertPOPMRating 0xC0 = to_float (Finite (80 / 100))
   \<and> is_float (Finite (13421773 / 16777216))
   \<and> ConvertToPOPMRating (Finite (13421773 / 16777216)) = 0xC0"
proof -
  have f: "is_float (Finite (13421773 / 16777216))"
    using is_float_ConvertPOPMRating [of "0xC0"] by (simp add: ConvertPOPMRating_eq)
  note t = ConvertPOPMRating_ConvertToPOPMRating_tables [of "0xC0" "Finite (13421773 / 16777216)"]
  from t have "ConvertPOPMRating 0xC0 = to_float (Finite (80 / 100))"
    by simp
  moreover from t f have "ConvertToPOPMRating (Finite (13421773 / 16777216)) = 0xC0"
    by simp
  ultimately show ?thesis using f by simp
qed

text \<open>
  Claim C10. \<open>ConvertToPOPMRating\<close> returns one of its six bytes on every input, NaN and the
  infinities included; every rating below 0.20, such as the unset sentinel -1, gives \<open>0x00\<close>,
  and every rating at or above 1.0 gives \<open>0xFF\<close>.
\<close>

theorem ConvertToPOPMRating_total_edges:
  "ConvertToPOPMRating r \<in> {0x00, 0x01, 0x40, 0x80, 0xC0, 0xFF}
   \<and> (fp_less r (Finite (20 / 100)) \<longrightarrow> ConvertToPOPMRating r = 0x00)
   \<and> (fp_le (Finite 1) r \<longrightarrow> ConvertToPOPMRating r = 0xFF)"
proof (intro conjI impI)
  show "ConvertToPOPMRating r \<in> {0x00, 0x01, 0x40, 0x80, 0xC0, 0xFF}"
    by (simp add: ConvertToPOPMRating_eq)
next
  assume "fp_less r (Finite (20 / 100))"
  then show "ConvertToPOPMRating r = 0x00"
    by (cases r) (simp_all add: ConvertToPOPMRating_eq)
next
  assume "fp_le (Finite 1) r"
  then show "ConvertToPOPMRating r = 0xFF"
    by (cases r) (auto simp add: ConvertToPOPMRating_eq fp_le_def)
qed

theorem ConvertToPOPMRating_total_edges_witness:
  "fp_less (Finite (- 1)) (Finite (20 / 100)) \<and> ConvertToPOPMRating (Finite (- 1)) = 0x00
   \<and> fp_less NInf (Finite (20 / 100)) \<and> ConvertToPOPMRating NInf = 0x00
   \<and> fp_le (Finite 1) (Finite 2) \<and> ConvertToPOPMRating (Finite 2) = 0xFF
   \<and> fp_le (Finite 1) PInf \<and> ConvertToPOPMRating PInf = 0xFF"
  using ConvertToPOPMRating_total_edges [of "Finite (- 1)"]
    ConvertToPOPMRating_total_edges [of NInf]
    ConvertToPOPMRating_total_edges [of "Finite 2"]
    ConvertToPOPMRating_total_edges [of PInf]
  by (simp add: fp_le_def)

subsection \<open>The disc number\<close>

lemma disc_ReadFile_SetDefault: "disc (ReadFile_SetDefault s) = SetDefault (disc s)"
  by (simp add: ReadFile_SetDefault_def)

lemma disc_ReadFile_end:
  "disc (ReadFile_end fileref t song) = SetDefault (disc (ReadFile_disc t song))"
  by (simp add: ReadFile_end_def Let_def disc_ReadFile_SetDefault split: option.splits)

lemma takeWhile_until: "c \<notin> set l \<Longrightarrow> takeWhile (\<lambda>x. x \<noteq> c) (l @ c # r) = l"
  by (induction l) auto

lemma indexOf_append:
  assumes "c \<notin> set l" shows "indexOf (l @ c # r) c = int (length l)"
  using assms by (simp add: indexOf_def takeWhile_until)

lemma left_append: "left (l @ c # r) (int (length l)) = l"
  by (simp add: left_def)

text \<open>
  Claim C8. At the end of \<open>ReadFile\<close> the disc string \<open>2/10\<close> gives disc 2 and \<open>7\<close> gives
  disc 7; the empty string leaves a record without a disc at the sentinel -1; and of any string
  \<open>N/M\<close> only the left operand \<open>N\<close> is converted, whatever \<open>M\<close> is.
\<close>

theorem ReadFile_disc_left_operand:
  "disc (ReadFile_end fileref ''2/10'' song) = 2
   \<and> disc (ReadFile_end fileref ''7'' song) = 7
   \<and> (disc song \<le> 0 \<longrightarrow> disc (ReadFile_end fileref [] song) = - 1)
   \<and> (CHR ''/'' \<notin> set l \<longrightarrow>
        disc (ReadFile_end fileref (l @ CHR ''/'' # r) song) = SetDefault (toInt l))"
proof (intro conjI impI)
  show "disc (ReadFile_end fileref ''2/10'' song) = 2"
    by (simp add: disc_ReadFile_end ReadFile_disc_def indexOf_def left_def SetDefault_def
        toInt_def trimmed_def isSpace_def digit_def)
  show "disc (ReadFile_end fileref ''7'' song) = 7"
    by (simp add: disc_ReadFile_end ReadFile_disc_def indexOf_def SetDefault_def
        toInt_def trimmed_def isSpace_def digit_def)
  show "disc (ReadFile_end fileref [] song) = - 1" if "disc song \<le> 0"
    using that by (simp add: disc_ReadFile_end ReadFile_disc_def SetDefault_def)
  show "disc (ReadFile_end fileref (l @ CHR ''/'' # r) song) = SetDefault (toInt l)"
    if "CHR ''/'' \<notin> set l"
    using that
    by (simp add: disc_ReadFile_end ReadFile_disc_def indexOf_append left_append Let_def)
qed

theorem ReadFile_disc_left_operand_witness:
  "disc blank \<le> 0 \<and> disc (ReadFile_end (open_file Other) [] blank) = - 1
   \<and> CHR ''/'' \<notin> set ''12''
   \<and> disc (ReadFile_end (open_file Other) ''12/3'' blank) = 12"
  using ReadFile_disc_left_operand [of "open_file Other" blank "''12''" "''3''"]
  by (simp add: blank_def SetDefault_def toInt_def trimmed_def isSpace_def digit_def)

subsection \<open>FMPS frames: the plain value before the user value\<close>

text \<open>
  Claim C4. \<open>ParseFMPSFrame\<close> on an \<^verbatim>\<open>FMPS_Rating\<close> frame with a numeric first value sets
  the rating whatever the record holds; on an \<^verbatim>\<open>FMPS_Rating_User\<close> frame it leaves a record
  whose rating is not the unset value -1 as it is, and sets the rating of an unset record from
  the second value. \<^verbatim>\<open>FMPS_PlayCount\<close> and \<^verbatim>\<open>FMPS_PlayCount_User\<close> do the same on the
  play count, whose unset value is 0.
\<close>

theorem ParseFMPSFrame_plain_over_user:
  "(Parse L v = Some result \<and> \<not> is_empty result \<and> hd result ! 0 = Double d \<longrightarrow>
      ParseFMPSFrame L ''FMPS_Rating'' v song = Some (song\<lparr>rating := to_float d\<rparr>))
   \<and> (\<not> fp_eq (rating song) (Finite (- 1)) \<longrightarrow>
      ParseFMPSFrame L ''FMPS_Rating_User'' v song = Some song)
   \<and> (fp_eq (rating song) (Finite (- 1)) \<and> Parse L v = Some result \<and> \<not> is_empty result
        \<and> 2 \<le> length (hd result) \<and> hd result ! 1 = Double d \<longrightarrow>
      ParseFMPSFrame L ''FMPS_Rating_User'' v song = Some (song\<lparr>rating := to_float d\<rparr>))
   \<and> (Parse L v = Some result \<and> \<not> is_empty result \<and> hd result ! 0 = Double d
        \<and> fp_to_int d = Some n \<longrightarrow>
      ParseFMPSFrame L ''FMPS_PlayCount'' v song = Some (song\<lparr>playcount := n\<rparr>))
   \<and> (playcount song \<noteq> 0 \<longrightarrow>
      ParseFMPSFrame L ''FMPS_PlayCount_User'' v song = Some song)
   \<and> (playcount song = 0 \<and> Parse L v = Some result \<and> \<not> is_empty result
        \<and> 2 \<le> length (hd result) \<and> hd result ! 1 = Double d \<and> fp_to_int d = Some n \<longrightarrow>
      ParseFMPSFrame L ''FMPS_PlayCount_User'' v song = Some (song\<lparr>playcount := n\<rparr>))"
  by (auto simp add: ParseFMPSFrame_def split: option.splits QVariant.splits)

lemma to_float_half: "to_float (Finite (1 / 2)) = Finite (1 / 2)"
  by (simp add: fp_eval)
lemma to_float_34: "to_float (Finite (3 / 4)) = Finite (3 / 4)"
  by (simp add: fp_eval)

theorem ParseFMPSFrame_plain_over_user_witness:
  "ParseFMPSFrame example_lib ''FMPS_Rating'' ''0.5'' (blank\<lparr>rating := Finite (- 1)\<rparr>)
     = Some (blank\<lparr>rating := Finite (1 / 2)\<rparr>)
   \<and> ParseFMPSFrame example_lib ''FMPS_Rating_User'' ''alice::0.75'' (blank\<lparr>rating := Finite (1 / 2)\<rparr>)
     = Some (blank\<lparr>rating := Finite (1 / 2)\<rparr>)
   \<and> ParseFMPSFrame example_lib ''FMPS_Rating_User'' ''alice::0.75'' (blank\<lparr>rating := Finite (- 1)\<rparr>)
     = Some (blank\<lparr>rating := Finite (3 / 4)\<rparr>)
   \<and> ParseFMPSFrame example_lib ''FMPS_PlayCount'' ''3'' (blank\<lparr>playcount := 9\<rparr>)
     = Some (blank\<lparr>playcount := 3\<rparr>)
   \<and> ParseFMPSFrame example_lib ''FMPS_PlayCount_User'' ''alice::7'' (blank\<lparr>playcount := 3\<rparr>)
     = Some (blank\<lparr>playcount := 3\<rparr>)
   \<and> ParseFMPSFrame example_lib ''FMPS_PlayCount_User'' ''alice::7'' blank
     = Some (blank\<lparr>playcount := 7\<rparr>)"
proof -
  note t = ParseFMPSFrame_plain_over_user [where L = example_lib]
  note t1 = t [THEN conjunct1]
  note t2 = t [THEN conjunct2, THEN conjunct1]
  note t3 = t [THEN conjunct2, THEN conjunct2, THEN conjunct1]
  note t4 = t [THEN conjunct2, THEN conjunct2, THEN conjunct2, THEN conjunct1]
  note t5 = t [THEN conjunct2, THEN conjunct2, THEN conjunct2, THEN conjunct2, THEN conjunct1]
  note t6 = t [THEN conjunct2, THEN conjunct2, THEN conjunct2, THEN conjunct2, THEN conjunct2]
  have 1: "ParseFMPSFrame example_lib ''FMPS_Rating'' ''0.5'' (blank\<lparr>rating := Finite (- 1)\<rparr>)
     = Some (blank\<lparr>rating := Finite (1 / 2)\<rparr>)"
    using t1 [of "''0.5''" "[[Double (Finite (1 / 2))]]" "Finite (1 / 2)"
        "blank\<lparr>rating := Finite (- 1)\<rparr>"]
    by (simp add: example_lib_def is_empty_def fp_eval)
  have 2: "ParseFMPSFrame example_lib ''FMPS_Rating_User'' ''alice::0.75''
             (blank\<lparr>rating := Finite (1 / 2)\<rparr>)
     = Some (blank\<lparr>rating := Finite (1 / 2)\<rparr>)"
    using t2 [of "blank\<lparr>rating := Finite (1 / 2)\<rparr>" "''alice::0.75''"]
    by simp
  have 3: "ParseFMPSFrame example_lib ''FMPS_Rating_User'' ''alice::0.75''
             (blank\<lparr>rating := Finite (- 1)\<rparr>)
     = Some (blank\<lparr>rating := Finite (3 / 4)\<rparr>)"
    using t3 [of "blank\<lparr>rating := Finite (- 1)\<rparr>" "''alice::0.75''"
        "[[String ''alice'', Double (Finite (3 / 4))]]" "Finite (3 / 4)"]
    by (simp add: example_lib_def is_empty_def fp_eval)
  have 4: "ParseFMPSFrame example_lib ''FMPS_PlayCount'' ''3'' (blank\<lparr>playcount := 9\<rparr>)
     = Some (blank\<lparr>playcount := 3\<rparr>)"
    using t4 [of "''3''" "[[Double (Finite 3)]]" "Finite 3" 3 "blank\<lparr>playcount := 9\<rparr>"]
    by (simp add: example_lib_def is_empty_def trunc_def)
  have 5: "ParseFMPSFrame example_lib ''FMPS_PlayCount_User'' ''alice::7''
             (blank\<lparr>playcount := 3\<rparr>)
     = Some (blank\<lparr>playcount := 3\<rparr>)"
    using t5 [of "blank\<lparr>playcount := 3\<rparr>" "''alice::7''"]
    by simp
  have 6: "ParseFMPSFrame example_lib ''FMPS_PlayCount_User'' ''alice::7'' blank
     = Some (blank\<lparr>playcount := 7\<rparr>)"
    using t6 [of blank "''alice::7''" "[[String ''alice'', Double (Finite 7)]]" "Finite 7" 7]
    by (simp add: example_lib_def is_empty_def trunc_def blank_def)
  from 1 2 3 4 5 6 show ?thesis by (intro conjI)
qed

subsection \<open>ID3v2: the FMPS frames before the \<^verbatim>\<open>POPM\<close> frame\<close>

lemma ReadFile_FMPS_append:
  "ReadFile_FMPS L (xs @ ys) s =
     (case ReadFile_FMPS L xs s of None \<Rightarrow> None | Some s' \<Rightarrow> ReadFile_FMPS L ys s')"
  by (induction L xs s rule: ReadFile_FMPS.induct) (simp_all split: option.splits)



lemma rating_ReadFile_end: "rating (ReadFile_end fileref t s) = rating s"
  by (simp add: ReadFile_end_def ReadFile_disc_def ReadFile_SetDefault_def Let_def
      split: option.splits)

lemma playcount_ReadFile_end: "playcount (ReadFile_end fileref t s) = playcount s"
  by (simp add: ReadFile_end_def ReadFile_disc_def ReadFile_SetDefault_def Let_def
      split: option.splits)



lemma ReadFile_POPM_rating:
  "rating (ReadFile_POPM popm s) \<noteq> rating s \<Longrightarrow>
     fp_le (rating s) (Finite 0)
     \<and> (\<exists>e r c fs. popm = PopularimeterFrame e r c # fs \<and> 0 < r
            \<and> rating (ReadFile_POPM popm s) = ConvertPOPMRating r)"
  by (auto simp add: ReadFile_POPM_def Let_def split: list.splits Frame.splits if_splits)


lemma ReadFile_ID3v2_Some:
  assumes "ReadFile_ID3v2 L frames dt song = Some (t, s2)"
  shows "\<exists>s0 s. ReadFile_FMPS L (frameListMap frames ''TXXX'') s0 = Some s
           \<and> rating s0 = rating song \<and> playcount s0 = playcount song
           \<and> s2 = ReadFile_POPM (frameListMap frames ''POPM'') s"
proof (cases "frameListMap frames ''TBPM'' \<noteq> []")
  case True
  let ?s0 = "song\<lparr>bpm := toFloat L (trimmed (toString (hd (frameListMap frames ''TBPM''))))\<rparr>"
  from assms True obtain s where "ReadFile_FMPS L (frameListMap frames ''TXXX'') ?s0 = Some s"
    and "s2 = ReadFile_POPM (frameListMap frames ''POPM'') s"
    by (auto simp add: ReadFile_ID3v2_def Let_def split: option.splits)
  moreover have "rating ?s0 = rating song" and "playcount ?s0 = playcount song" by simp_all
  ultimately show ?thesis by blast
next
  case False
  from assms False obtain s where "ReadFile_FMPS L (frameListMap frames ''TXXX'') song = Some s"
    and "s2 = ReadFile_POPM (frameListMap frames ''POPM'') s"
    by (auto simp add: ReadFile_ID3v2_def Let_def split: option.splits)
  then show ?thesis by blast
qed

lemma ReadFile_MPEG:
  assumes "contents fs filename = Some fileref" and "ref_file fileref = MPEG (Some frames)"
    and "ReadFile L fs filename song = Some song'"
  shows "\<exists>s0 s. ReadFile_FMPS L (frameListMap frames ''TXXX'') s0 = Some s
           \<and> rating s0 = rating song \<and> playcount s0 = playcount song
           \<and> rating song' = rating (ReadFile_POPM (frameListMap frames ''POPM'') s)
           \<and> playcount song' = playcount (ReadFile_POPM (frameListMap frames ''POPM'') s)"
proof -
  let ?s1 = "song\<lparr>year := sint (tag_year (ref_tag fileref)),
                  track := sint (tag_track (ref_tag fileref)), valid := True\<rparr>"
  from assms obtain t s2 where i: "ReadFile_ID3v2 L frames [] ?s1 = Some (t, s2)"
    and e: "song' = ReadFile_end fileref t s2"
    by (auto simp add: ReadFile_def GetFileRef_def ReadFile_branch_def Let_def split: option.splits)
  from ReadFile_ID3v2_Some [OF i] obtain s0 s
    where "ReadFile_FMPS L (frameListMap frames ''TXXX'') s0 = Some s"
      and "rating s0 = rating ?s1" and "playcount s0 = playcount ?s1"
      and "s2 = ReadFile_POPM (frameListMap frames ''POPM'') s"
    by blast
  with e show ?thesis
    by (auto simp add: rating_ReadFile_end playcount_ReadFile_end)
qed




subsection \<open>No read clamps the rating\<close>

lemma rating_native_playcount: "rating (native_playcount p s) = rating s"
  by (simp add: native_playcount_def)

lemma rating_native_score: "rating (native_score c s) = rating s"
  by (simp add: native_score_def)

lemma rating_native_rating:
  "rating (native_rating r s)
     = (if fp_le (rating s) (Finite 0) \<and> fp_less (Finite 0) r then r else rating s)"
  by (simp add: native_rating_def)

lemma rating_parseApeTag:
  assumes "parseApeTag L its dt song = Some (dt', s')"
  shows "rating s'
         = (if its ''FMPS_RATING'' \<noteq> None \<and> fp_le (rating song) (Finite 0)
               \<and> fp_less (Finite 0) (toFloat L (item_toString its ''FMPS_RATING''))
            then toFloat L (item_toString its ''FMPS_RATING'') else rating song)"
proof -
  define s1 where "s1 = (if its ''FMPS_RATING'' \<noteq> None
                then native_rating (toFloat L (item_toString its ''FMPS_RATING'')) song
                else song)"
  from assms have "rating s' = rating s1"
    unfolding parseApeTag_def Let_def s1_def [symmetric]
    by (auto simp add: rating_native_playcount rating_native_score
        split: option.splits if_splits)
  then show ?thesis
    by (cases "its ''FMPS_RATING''") (simp_all add: s1_def rating_native_rating)
qed

lemma rating_ReadFile_MP4:
  assumes "ReadFile_MP4 L t dt song = Some (dt', s')"
  shows "rating s'
         = (case items t ''----:com.apple.iTunes:FMPS_Rating'' of
              Some vs \<Rightarrow>
                if fp_le (rating song) (Finite 0)
                   \<and> fp_less (Finite 0) (toFloat L (join [CHR 0x0A] vs))
                then toFloat L (join [CHR 0x0A] vs) else rating song
            | None \<Rightarrow> rating song)"
proof -
  define s1 where "s1 = (case items t ''----:com.apple.iTunes:FMPS_Rating'' of
                  Some vs \<Rightarrow> native_rating (toFloat L (join [CHR 0x0A] vs)) song
                | None \<Rightarrow> song)"
  from assms have "rating s' = rating s1"
    unfolding ReadFile_MP4_def Let_def s1_def [symmetric]
    by (auto simp add: rating_native_playcount rating_native_score split: option.splits)
  then show ?thesis
    by (cases "items t ''----:com.apple.iTunes:FMPS_Rating''")
      (simp_all add: s1_def rating_native_rating)
qed

lemma rating_ReadFile_ASF:
  assumes "ReadFile_ASF L attrs song = Some s'"
  shows "rating s'
         = (case attrs ''FMPS/Rating'' of
              Some (a # as) \<Rightarrow>
                if fp_le (rating song) (Finite 0) \<and> fp_less (Finite 0) (toFloat L a)
                then toFloat L a else rating song
            | _ \<Rightarrow> rating song)"
proof -
  define s1 where "s1 = (case attrs ''FMPS/Rating'' of
                  Some (a # as) \<Rightarrow> native_rating (toFloat L a) song
                | _ \<Rightarrow> song)"
  from assms have r: "rating s' = rating s1"
    unfolding ReadFile_ASF_def Let_def s1_def [symmetric]
    by (auto simp add: rating_native_playcount rating_native_score
        split: option.splits list.splits)
  show ?thesis
  proof (cases "attrs ''FMPS/Rating''")
    case None
    then show ?thesis using r by (simp add: s1_def)
  next
    case (Some l)
    then show ?thesis using r by (cases l) (simp_all add: s1_def rating_native_rating)
  qed
qed

lemma rating_ParseOggTag:
  assumes "ParseOggTag L m dt song = Some (dt', s')"
  shows "rating s'
         = (if m ''FMPS_RATING'' \<noteq> [] \<and> fp_le (rating song) (Finite 0)
            then toFloat L (trimmed (hd (m ''FMPS_RATING''))) else rating song)"
proof -
  define s1 where "s1 = (if m ''BPM'' \<noteq> [] then song\<lparr>bpm := toFloat L (trimmed (hd (m ''BPM'')))\<rparr>
                else song)"
  define s2 where "s2 = (if m ''FMPS_RATING'' \<noteq> [] \<and> fp_le (rating s1) (Finite 0)
                then s1\<lparr>rating := toFloat L (trimmed (hd (m ''FMPS_RATING'')))\<rparr> else s1)"
  from assms have "rating s' = rating s2"
    unfolding ParseOggTag_def Let_def s1_def [symmetric] s2_def [symmetric]
    by (auto split: option.splits if_splits)
  moreover have "rating s1 = rating song" by (simp add: s1_def)
  ultimately show ?thesis by (simp add: s2_def)
qed

lemma ReadFile_Some:
  assumes "contents fs filename = Some fileref"
    and "ReadFile L fs filename song = Some song'"
  shows "\<exists>t s2. ReadFile_branch L (ref_file fileref)
                 (song\<lparr>year := sint (tag_year (ref_tag fileref)),
                        track := sint (tag_track (ref_tag fileref)), valid := True\<rparr>)
               = Some (t, s2)
             \<and> song' = ReadFile_end fileref t s2"
  using assms
  by (auto simp add: ReadFile_def GetFileRef_def Let_def split: option.splits)

lemma ParseFMPSFrame_rating_other:
  assumes "name \<noteq> ''FMPS_Rating''" and "name \<noteq> ''FMPS_Rating_User''"
    and "ParseFMPSFrame L name v s = Some s'"
  shows "rating s' = rating s"
  using assms
  by (auto simp add: ParseFMPSFrame_def split: option.splits QVariant.splits if_splits)

lemma ReadFile_FMPS_rating_other:
  assumes "\<forall>w. UserTextIdentificationFrame ''FMPS_Rating'' w \<notin> set fs
               \<and> UserTextIdentificationFrame ''FMPS_Rating_User'' w \<notin> set fs"
    and "ReadFile_FMPS L fs s = Some s'"
  shows "rating s' = rating s"
  using assms
proof (induction L fs s rule: ReadFile_FMPS.induct)
  case (1 L song)
  then show ?case by simp
next
  case (2 L d v fs song)
  show ?case
  proof (cases "take 5 d = ''FMPS_''")
    case True
    with "2.prems" obtain s1 where p: "ParseFMPSFrame L d v song = Some s1"
      and r: "ReadFile_FMPS L fs s1 = Some s'"
      by (auto split: option.splits)
    from "2.prems"(1) have "d \<noteq> ''FMPS_Rating''" and "d \<noteq> ''FMPS_Rating_User''" by auto
    from ParseFMPSFrame_rating_other [OF this p] have k: "rating s1 = rating song" .
    from "2.IH"(1) [OF True p] "2.prems"(1) r have "rating s' = rating s1" by simp
    with k show ?thesis by simp
  next
    case False
    with "2.IH"(2) "2.prems" show ?thesis by simp
  qed
qed simp_all

lemma ParseFMPSFrame_rating_source:
  assumes "ParseFMPSFrame L name v s = Some s'"
  shows "rating s' = rating s
         \<or> (\<exists>result d. Parse L v = Some result \<and> \<not> is_empty result
               \<and> (name = ''FMPS_Rating'' \<and> hd result ! 0 = Double d
                  \<or> name = ''FMPS_Rating_User''
                    \<and> 2 \<le> length (hd result) \<and> hd result ! 1 = Double d)
               \<and> rating s' = to_float d)"
proof (cases "Parse L v")
  case None
  with assms show ?thesis by (simp add: ParseFMPSFrame_def)
next
  case (Some result)
  show ?thesis
  proof (cases "is_empty result")
    case True
    with Some assms show ?thesis by (simp add: ParseFMPSFrame_def)
  next
    case ne: False
    consider (plain) "name = ''FMPS_Rating''" | (user) "name = ''FMPS_Rating_User''"
      | (other) "name \<noteq> ''FMPS_Rating''" "name \<noteq> ''FMPS_Rating_User''"
      by blast
    then show ?thesis
    proof cases
      case plain
      show ?thesis
      proof (cases "hd result ! 0")
        case (Double d)
        with plain Some ne assms have "rating s' = to_float d"
          by (auto simp add: ParseFMPSFrame_def)
        with plain Some ne Double show ?thesis by blast
      next
        case (String x)
        with plain Some ne assms show ?thesis by (auto simp add: ParseFMPSFrame_def)
      qed
    next
      case user
      show ?thesis
      proof (cases "fp_eq (rating s) (Finite (- 1)) \<and> 2 \<le> length (hd result)")
        case False
        with user Some ne assms show ?thesis by (auto simp add: ParseFMPSFrame_def)
      next
        case g: True
        show ?thesis
        proof (cases "hd result ! 1")
          case (Double d)
          with user Some ne g assms have "rating s' = to_float d"
            by (auto simp add: ParseFMPSFrame_def)
          with user Some ne g Double show ?thesis by blast
        next
          case (String x)
          with user Some ne g assms show ?thesis by (auto simp add: ParseFMPSFrame_def)
        qed
      qed
    next
      case other
      from ParseFMPSFrame_rating_other [OF other assms] show ?thesis by simp
    qed
  qed
qed

lemma ReadFile_FMPS_rating_from:
  assumes q: "\<And>name v s s'. ParseFMPSFrame L name v s = Some s' \<Longrightarrow>
                rating s' = rating s \<or> Q name v (rating s')"
    and "ReadFile_FMPS L fs s = Some s'"
  shows "rating s' = rating s
         \<or> (\<exists>name v. UserTextIdentificationFrame name v \<in> set fs \<and> Q name v (rating s'))"
  using assms(2)
proof (induction fs arbitrary: s)
  case Nil
  then show ?case by simp
next
  case (Cons f fs)
  show ?case
  proof (cases "\<exists>d v. f = UserTextIdentificationFrame d v \<and> take 5 d = ''FMPS_''")
    case True
    then obtain d v where f: "f = UserTextIdentificationFrame d v" and t: "take 5 d = ''FMPS_''"
      by blast
    with Cons.prems obtain s1 where p: "ParseFMPSFrame L d v s = Some s1"
      and r: "ReadFile_FMPS L fs s1 = Some s'"
      by (auto split: option.splits)
    from Cons.IH [OF r] consider (kept) "rating s' = rating s1"
      | (later) name w where "UserTextIdentificationFrame name w \<in> set fs" "Q name w (rating s')"
      by blast
    then show ?thesis
    proof cases
      case kept
      from q [OF p] kept have "rating s' = rating s \<or> Q d v (rating s')" by simp
      with f show ?thesis by auto
    next
      case later
      then show ?thesis by auto
    qed
  next
    case False
    with Cons.prems have "ReadFile_FMPS L fs s = Some s'"
      by (cases f) (auto split: if_splits)
    from Cons.IH [OF this] show ?thesis by auto
  qed
qed

lemma ReadFile_FMPS_rating_source:
  assumes "ReadFile_FMPS L fs s = Some s'"
  shows "rating s' = rating s
         \<or> (\<exists>name v result d. UserTextIdentificationFrame name v \<in> set fs
               \<and> Parse L v = Some result \<and> \<not> is_empty result
               \<and> (name = ''FMPS_Rating'' \<and> hd result ! 0 = Double d
                  \<or> name = ''FMPS_Rating_User''
                    \<and> 2 \<le> length (hd result) \<and> hd result ! 1 = Double d)
               \<and> rating s' = to_float d)"
proof -
  define Q where "Q = (\<lambda>name v x. \<exists>result d. Parse L v = Some result \<and> \<not> is_empty result
               \<and> (name = ''FMPS_Rating'' \<and> hd result ! 0 = Double d
                  \<or> name = ''FMPS_Rating_User''
                    \<and> 2 \<le> length (hd result) \<and> hd result ! 1 = Double d)
               \<and> x = to_float d)"
  have "rating s' = rating s \<or> Q name v (rating s')"
    if "ParseFMPSFrame L name v s = Some s'" for name v s s'
    using ParseFMPSFrame_rating_source [OF that] unfolding Q_def .
  from ReadFile_FMPS_rating_from [of L Q, OF this assms]
  have "rating s' = rating s
         \<or> (\<exists>name v. UserTextIdentificationFrame name v \<in> set fs \<and> Q name v (rating s'))" .
  then show ?thesis unfolding Q_def by blast
qed

lemma rating_ReadFile_POPM:
  "rating (ReadFile_POPM popm s)
     = (case popm of
          PopularimeterFrame e r c # fs \<Rightarrow>
            if fp_le (rating s) (Finite 0) \<and> 0 < r then ConvertPOPMRating r else rating s
        | _ \<Rightarrow> rating s)"
  by (auto simp add: ReadFile_POPM_def Let_def split: list.splits Frame.splits)

text \<open>
  Claim C7, in the form that holds. After a read the rating is the one the record had, or the
  value a native FMPS field converts to, as it is, or, in an ID3v2 tag, the rating that the
  byte of the first \<^verbatim>\<open>POPM\<close> frame decodes to. No path compares a value with 1.

  \<^item> An APE item, an MP4 atom and an ASF attribute are stored exactly when the rating of the
    record is at most 0 and the value is greater than 0.
  \<^item> A Vorbis comment is stored exactly when the rating of the record is at most 0, whatever
    the value.
  \<^item> In an ID3v2 tag the rating read is the one the record had, the numeric value of an
    \<^verbatim>\<open>FMPS_Rating\<close> or \<^verbatim>\<open>FMPS_Rating_User\<close> frame, or the decoded byte, greater than 0,
    of the first \<^verbatim>\<open>POPM\<close> frame. When the last of the FMPS rating frames is an
    \<^verbatim>\<open>FMPS_Rating\<close> frame with a numeric value, that value is stored whatever it is, and
    the \<^verbatim>\<open>POPM\<close> byte replaces it exactly when the value is at most 0 and the byte is
    greater than 0.
  \<^item> A file without these tags leaves the rating.
\<close>

theorem ReadFile_rating_unclamped:
  assumes "contents fs filename = Some fileref"
    and "ReadFile L fs filename song = Some song'"
  shows "(ref_file fileref \<in> {APE (Some its), MPC (Some its), WavPack (Some its)} \<longrightarrow>
            rating song'
            = (if its ''FMPS_RATING'' \<noteq> None \<and> fp_le (rating song) (Finite 0)
                  \<and> fp_less (Finite 0) (toFloat L (item_toString its ''FMPS_RATING''))
               then toFloat L (item_toString its ''FMPS_RATING'') else rating song))
       \<and> (ref_file fileref = MP4 t \<longrightarrow>
            rating song'
            = (case items t ''----:com.apple.iTunes:FMPS_Rating'' of
                 Some vs \<Rightarrow>
                   if fp_le (rating song) (Finite 0)
                      \<and> fp_less (Finite 0) (toFloat L (join [CHR 0x0A] vs))
                   then toFloat L (join [CHR 0x0A] vs) else rating song
               | None \<Rightarrow> rating song))
       \<and> (ref_file fileref = ASF attrs \<longrightarrow>
            rating song'
            = (case attrs ''FMPS/Rating'' of
                 Some (a # as) \<Rightarrow>
                   if fp_le (rating song) (Finite 0) \<and> fp_less (Finite 0) (toFloat L a)
                   then toFloat L a else rating song
               | _ \<Rightarrow> rating song))
       \<and> (ref_file fileref \<in> {Ogg m, FLAC m} \<longrightarrow>
            rating song'
            = (if m ''FMPS_RATING'' \<noteq> [] \<and> fp_le (rating song) (Finite 0)
               then toFloat L (trimmed (hd (m ''FMPS_RATING''))) else rating song))
       \<and> (ref_file fileref = MPEG (Some frames) \<longrightarrow>
            rating song' = rating song
            \<or> (\<exists>name w res x.
                  UserTextIdentificationFrame name w \<in> set (frameListMap frames ''TXXX'')
                  \<and> Parse L w = Some res \<and> \<not> is_empty res
                  \<and> (name = ''FMPS_Rating'' \<and> hd res ! 0 = Double x
                     \<or> name = ''FMPS_Rating_User''
                       \<and> 2 \<le> length (hd res) \<and> hd res ! 1 = Double x)
                  \<and> rating song' = to_float x)
            \<or> (\<exists>e r c rest. frameListMap frames ''POPM'' = PopularimeterFrame e r c # rest
                  \<and> 0 < r \<and> rating song' = ConvertPOPMRating r))
       \<and> (ref_file fileref = MPEG (Some frames)
          \<and> frameListMap frames ''TXXX''
              = pre @ UserTextIdentificationFrame ''FMPS_Rating'' v # post
          \<and> (\<forall>w. UserTextIdentificationFrame ''FMPS_Rating'' w \<notin> set post
                 \<and> UserTextIdentificationFrame ''FMPS_Rating_User'' w \<notin> set post)
          \<and> Parse L v = Some result \<and> \<not> is_empty result \<and> hd result ! 0 = Double d \<longrightarrow>
            rating song'
            = (case frameListMap frames ''POPM'' of
                 PopularimeterFrame e r c # rest \<Rightarrow>
                   if fp_le (to_float d) (Finite 0) \<and> 0 < r then ConvertPOPMRating r
                   else to_float d
               | _ \<Rightarrow> to_float d))
       \<and> (ref_file fileref \<in> {MPEG None, Other} \<longrightarrow> rating song' = rating song)"
proof -
  let ?s1 = "song\<lparr>year := sint (tag_year (ref_tag fileref)),
                  track := sint (tag_track (ref_tag fileref)), valid := True\<rparr>"
  from ReadFile_Some [OF assms] obtain dt s2
    where b: "ReadFile_branch L (ref_file fileref) ?s1 = Some (dt, s2)"
      and e: "song' = ReadFile_end fileref dt s2"
    by blast
  have r: "rating song' = rating s2" by (simp add: e rating_ReadFile_end)
  have s1: "rating ?s1 = rating song" by simp
  have ape: "rating song'
            = (if its ''FMPS_RATING'' \<noteq> None \<and> fp_le (rating song) (Finite 0)
                  \<and> fp_less (Finite 0) (toFloat L (item_toString its ''FMPS_RATING''))
               then toFloat L (item_toString its ''FMPS_RATING'') else rating song)"
    if "ref_file fileref \<in> {APE (Some its), MPC (Some its), WavPack (Some its)}"
  proof -
    from that b have "parseApeTag L its [] ?s1 = Some (dt, s2)"
      by (auto simp add: ReadFile_branch_def)
    from rating_parseApeTag [OF this] show ?thesis unfolding r s1 .
  qed
  have mp4: "rating song'
            = (case items t ''----:com.apple.iTunes:FMPS_Rating'' of
                 Some vs \<Rightarrow>
                   if fp_le (rating song) (Finite 0)
                      \<and> fp_less (Finite 0) (toFloat L (join [CHR 0x0A] vs))
                   then toFloat L (join [CHR 0x0A] vs) else rating song
               | None \<Rightarrow> rating song)"
    if "ref_file fileref = MP4 t"
  proof -
    from that b have "ReadFile_MP4 L t [] ?s1 = Some (dt, s2)"
      by (simp add: ReadFile_branch_def)
    from rating_ReadFile_MP4 [OF this] show ?thesis unfolding r s1 .
  qed
  have asf: "rating song'
            = (case attrs ''FMPS/Rating'' of
                 Some (a # as) \<Rightarrow>
                   if fp_le (rating song) (Finite 0) \<and> fp_less (Finite 0) (toFloat L a)
                   then toFloat L a else rating song
               | _ \<Rightarrow> rating song)"
    if "ref_file fileref = ASF attrs"
  proof -
    from that b have "ReadFile_ASF L attrs ?s1 = Some s2"
      by (auto simp add: ReadFile_branch_def)
    from rating_ReadFile_ASF [OF this] show ?thesis unfolding r s1 .
  qed
  have ogg: "rating song'
            = (if m ''FMPS_RATING'' \<noteq> [] \<and> fp_le (rating song) (Finite 0)
               then toFloat L (trimmed (hd (m ''FMPS_RATING''))) else rating song)"
    if "ref_file fileref \<in> {Ogg m, FLAC m}"
  proof -
    from that b have "ParseOggTag L m [] ?s1 = Some (dt, s2)"
      by (auto simp add: ReadFile_branch_def)
    from rating_ParseOggTag [OF this] show ?thesis unfolding r s1 .
  qed
  have id3: "rating song' = rating song
            \<or> (\<exists>name w res x.
                  UserTextIdentificationFrame name w \<in> set (frameListMap frames ''TXXX'')
                  \<and> Parse L w = Some res \<and> \<not> is_empty res
                  \<and> (name = ''FMPS_Rating'' \<and> hd res ! 0 = Double x
                     \<or> name = ''FMPS_Rating_User''
                       \<and> 2 \<le> length (hd res) \<and> hd res ! 1 = Double x)
                  \<and> rating song' = to_float x)
            \<or> (\<exists>e r c rest. frameListMap frames ''POPM'' = PopularimeterFrame e r c # rest
                  \<and> 0 < r \<and> rating song' = ConvertPOPMRating r)"
    if f: "ref_file fileref = MPEG (Some frames)"
  proof -
    from ReadFile_MPEG [OF assms(1) f assms(2)] obtain s0 s
      where fm: "ReadFile_FMPS L (frameListMap frames ''TXXX'') s0 = Some s"
        and r0: "rating s0 = rating song"
        and rp: "rating song' = rating (ReadFile_POPM (frameListMap frames ''POPM'') s)"
      by blast
    show ?thesis
    proof (cases "rating song' = rating s")
      case True
      from ReadFile_FMPS_rating_source [OF fm] show ?thesis unfolding True r0 by blast
    next
      case False
      from False have "rating (ReadFile_POPM (frameListMap frames ''POPM'') s) \<noteq> rating s"
        unfolding rp .
      from ReadFile_POPM_rating [OF this]
      have "\<exists>e r c rest. frameListMap frames ''POPM'' = PopularimeterFrame e r c # rest
                  \<and> 0 < r \<and> rating song' = ConvertPOPMRating r"
        unfolding rp by blast
      then show ?thesis by blast
    qed
  qed
  have last: "rating song'
            = (case frameListMap frames ''POPM'' of
                 PopularimeterFrame e r c # rest \<Rightarrow>
                   if fp_le (to_float d) (Finite 0) \<and> 0 < r then ConvertPOPMRating r
                   else to_float d
               | _ \<Rightarrow> to_float d)"
    if f: "ref_file fileref = MPEG (Some frames)"
      and sp: "frameListMap frames ''TXXX''
                = pre @ UserTextIdentificationFrame ''FMPS_Rating'' v # post"
      and np: "\<forall>w. UserTextIdentificationFrame ''FMPS_Rating'' w \<notin> set post
                 \<and> UserTextIdentificationFrame ''FMPS_Rating_User'' w \<notin> set post"
      and pa: "Parse L v = Some result" "\<not> is_empty result" "hd result ! 0 = Double d"
  proof -
    from ReadFile_MPEG [OF assms(1) f assms(2)] obtain s0 s
      where fm: "ReadFile_FMPS L (frameListMap frames ''TXXX'') s0 = Some s"
        and rp: "rating song' = rating (ReadFile_POPM (frameListMap frames ''POPM'') s)"
      by blast
    from fm sp obtain a where
      c: "ReadFile_FMPS L (UserTextIdentificationFrame ''FMPS_Rating'' v # post) a = Some s"
      by (auto simp add: ReadFile_FMPS_append split: option.splits)
    from pa have "ParseFMPSFrame L ''FMPS_Rating'' v a = Some (a\<lparr>rating := to_float d\<rparr>)"
      by (simp add: ParseFMPSFrame_def)
    with c have "ReadFile_FMPS L post (a\<lparr>rating := to_float d\<rparr>) = Some s"
      by simp
    from ReadFile_FMPS_rating_other [OF np this] have rs: "rating s = to_float d" by simp
    from rp show ?thesis unfolding rating_ReadFile_POPM rs .
  qed
  have none: "rating song' = rating song" if "ref_file fileref \<in> {MPEG None, Other}"
    using that b r by (auto simp add: ReadFile_branch_def)
  from ape mp4 asf ogg id3 last none show ?thesis by blast
qed

theorem ReadFile_rating_unclamped_witness:
  "contents example_files ''five.ape''
     = Some (open_file (APE (Some [''FMPS_RATING'' \<mapsto> [''5'']])))
   \<and> ReadFile example_lib example_files ''five.ape'' blank
     = Some (blank\<lparr>valid := True, year := - 1, track := - 1, disc := - 1, bpm := Finite (- 1),
               rating := Finite 5, bitrate := - 1, samplerate := - 1, lastplayed := - 1\<rparr>)
   \<and> fp_le (rating blank) (Finite 0) \<and> fp_less (Finite 0) (Finite 5)
   \<and> toFloat example_lib (item_toString [''FMPS_RATING'' \<mapsto> [''5'']] ''FMPS_RATING'') = Finite 5
   \<and> contents example_files ''rated0.mp3''
     = Some (open_file (MPEG (Some [UserTextIdentificationFrame ''FMPS_Rating'' ''0.0'',
                                    PopularimeterFrame [] 0xFF 0])))
   \<and> ReadFile example_lib example_files ''rated0.mp3'' blank
     = Some (blank\<lparr>valid := True, year := - 1, track := - 1, disc := - 1, bpm := Finite (- 1),
               rating := Finite 1, bitrate := - 1, samplerate := - 1, lastplayed := - 1\<rparr>)
   \<and> Parse example_lib ''0.0'' = Some [[Double (Finite 0)]]
   \<and> fp_le (to_float (Finite 0)) (Finite 0)
   \<and> ConvertPOPMRating 0xFF = Finite 1"
proof -
  let ?its = "[''FMPS_RATING'' \<mapsto> [''5'']]"
  let ?S = "blank\<lparr>valid := True, year := - 1, track := - 1, disc := - 1, bpm := Finite (- 1),
               rating := Finite 5, bitrate := - 1, samplerate := - 1, lastplayed := - 1\<rparr>"
  have g: "contents example_files ''five.ape'' = Some (open_file (APE (Some ?its)))"
    by (simp add: example_files_def)
  have r: "ReadFile example_lib example_files ''five.ape'' blank = Some ?S"
    by (simp add: ReadFile_def GetFileRef_def example_files_def open_file_def ReadFile_branch_def
      parseApeTag_def native_rating_def item_toString_def example_lib_def ReadFile_end_def ReadFile_disc_def
      ReadFile_SetDefault_def SetDefault_def SetDefault_float_def blank_tag_def blank_def
      fp_le_def)
  from ReadFile_rating_unclamped [OF g r, THEN conjunct1, of ?its]
  have "rating ?S
        = (if ?its ''FMPS_RATING'' \<noteq> None \<and> fp_le (rating blank) (Finite 0)
              \<and> fp_less (Finite 0) (toFloat example_lib (item_toString ?its ''FMPS_RATING''))
           then toFloat example_lib (item_toString ?its ''FMPS_RATING'') else rating blank)"
    by (simp add: open_file_def)
  then have a: "fp_le (rating blank) (Finite 0) \<and> fp_less (Finite 0) (Finite 5)
     \<and> toFloat example_lib (item_toString ?its ''FMPS_RATING'') = Finite 5"
    by (simp add: blank_def fp_le_def example_lib_def item_toString_def)
  let ?frames = "[UserTextIdentificationFrame ''FMPS_Rating'' ''0.0'', PopularimeterFrame [] 0xFF 0]"
  let ?T = "blank\<lparr>valid := True, year := - 1, track := - 1, disc := - 1, bpm := Finite (- 1),
               rating := Finite 1, bitrate := - 1, samplerate := - 1, lastplayed := - 1\<rparr>"
  have g': "contents example_files ''rated0.mp3'' = Some (open_file (MPEG (Some ?frames)))"
    by (simp add: example_files_def)
  have r': "ReadFile example_lib example_files ''rated0.mp3'' blank = Some ?T"
    by (simp add: ReadFile_def GetFileRef_def example_files_def open_file_def ReadFile_branch_def
      ReadFile_ID3v2_def frameListMap_def ParseFMPSFrame_def example_lib_def is_empty_def
      ReadFile_POPM_def ReadFile_end_def ReadFile_disc_def ReadFile_SetDefault_def
      SetDefault_def SetDefault_float_def blank_tag_def blank_def fp_le_def
      ConvertPOPMRating_eq fp_eval)
  have p: "Parse example_lib ''0.0'' = Some [[Double (Finite 0)]]"
    by (simp add: example_lib_def)
  have z: "fp_le (to_float (Finite 0)) (Finite 0)" by (simp add: fp_le_def fp_eval)
  from ReadFile_rating_unclamped [OF g' r', THEN conjunct2, THEN conjunct2, THEN conjunct2,
      THEN conjunct2, THEN conjunct2, THEN conjunct1,
      of ?frames "[]" "''0.0''" "[]" "[[Double (Finite 0)]]" "Finite 0"] p
  have "rating ?T = (if fp_le (to_float (Finite 0)) (Finite 0) then ConvertPOPMRating 0xFF
                     else to_float (Finite 0))"
    by (simp add: open_file_def frameListMap_def is_empty_def)
  with z have c: "ConvertPOPMRating 0xFF = Finite 1" by simp
  from g r a g' r' p z c show ?thesis by (intro conjI) simp_all
qed

text \<open>
  Claim C7 as stated fails: an APE file whose \<^verbatim>\<open>FMPS_RATING\<close> item is 5 reads as rating
  5.0, which is neither -1 nor within 0 and 1.
\<close>

theorem ReadFile_rating_five:
  "map_option rating (ReadFile example_lib example_files ''five.ape'' blank) = Some (Finite 5)
   \<and> \<not> fp_eq (Finite 5) (Finite (- 1))
   \<and> \<not> (fp_le (Finite 0) (Finite 5) \<and> fp_le (Finite 5) (Finite 1))"
  by (simp add: ReadFile_def GetFileRef_def example_files_def open_file_def ReadFile_branch_def
      parseApeTag_def native_rating_def item_toString_def example_lib_def rating_ReadFile_end blank_def fp_le_def)

subsection \<open>A rating-only save of an unrated record\<close>

text \<open>
  Claim C5, in the form that holds. For a record with a negative rating and a file name that
  is not null, \<open>SaveSongRatingToFile\<close> returns true and leaves the files as they are: nothing
  is opened and nothing is saved. For a null file name it returns false, and again touches
  nothing.
\<close>

theorem SaveSongRatingToFile_unrated:
  assumes "fp_less (rating song) (Finite 0)"
  shows "SaveSongRatingToFile L fs (Some name) song = (True, fs)
         \<and> SaveSongRatingToFile L fs None song = (False, fs)"
  using assms by (simp add: SaveSongRatingToFile_def)

theorem SaveSongRatingToFile_unrated_witness:
  "fp_less (rating (blank\<lparr>rating := Finite (- 1)\<rparr>)) (Finite 0)
   \<and> SaveSongRatingToFile example_lib example_files (Some ''rated.mp3'')
        (blank\<lparr>rating := Finite (- 1)\<rparr>) = (True, example_files)"
  using SaveSongRatingToFile_unrated [of "blank\<lparr>rating := Finite (- 1)\<rparr>" example_lib
      example_files "''rated.mp3''"]
  by simp

text \<open>
  Claim C5 as stated fails on the null file name: the save of a record with rating -1 returns
  false.
\<close>

theorem SaveSongRatingToFile_unrated_null_filename:
  "rating (blank\<lparr>rating := Finite (- 1)\<rparr>) = Finite (- 1)
   \<and> SaveSongRatingToFile example_lib example_files None (blank\<lparr>rating := Finite (- 1)\<rparr>)
       = (False, example_files)"
  by (simp add: SaveSongRatingToFile_def)

subsection \<open>A file that cannot be opened\<close>

text \<open>
  Claim C9, in the form that holds. With a null file name the three saves return false and
  touch nothing. With a file that cannot be opened, \<open>SaveFile\<close> and
  \<open>SaveSongStatisticsToFile\<close> return false after the attempt to open it, with no save attempted
  and the files as they were; so does \<open>SaveSongRatingToFile\<close> when the rating is not
  negative, while for a negative rating it returns true before it opens anything. A read of
  such a file returns what the fallback reader makes of the record: before that \<open>ReadFile\<close>
  itself assigns the file name, size and times only, so \<open>valid\<close> stays false when the
  fallback reader leaves it.
\<close>

theorem unavailable_container:
  "SaveFile L fs None song = Some (False, fs)
   \<and> SaveSongStatisticsToFile L fs None song = (False, fs)
   \<and> SaveSongRatingToFile L fs None song = (False, fs)
   \<and> (contents fs name = None \<longrightarrow>
        SaveFile L fs (Some name) song = Some (False, fs\<lparr>events := events fs @ [Opened name]\<rparr>)
        \<and> SaveSongStatisticsToFile L fs (Some name) song
            = (False, fs\<lparr>events := events fs @ [Opened name]\<rparr>)
        \<and> (\<not> fp_less (rating song) (Finite 0) \<longrightarrow>
             SaveSongRatingToFile L fs (Some name) song
               = (False, fs\<lparr>events := events fs @ [Opened name]\<rparr>))
        \<and> (fp_less (rating song) (Finite 0) \<longrightarrow>
             SaveSongRatingToFile L fs (Some name) song = (True, fs))
        \<and> ReadFile L fs name song = Some (GME_ReadFile L name song)
        \<and> (\<not> valid song \<and> valid (GME_ReadFile L name song) = valid song \<longrightarrow>
             map_option valid (ReadFile L fs name song) = Some False))"
  by (simp add: SaveFile_def SaveSongStatisticsToFile_def SaveSongRatingToFile_def ReadFile_def
      GetFileRef_def)

theorem unavailable_container_witness:
  "contents example_files ''missing.mp3'' = None
   \<and> SaveFile example_lib example_files (Some ''missing.mp3'') blank
       = Some (False, example_files\<lparr>events := [Opened ''missing.mp3'']\<rparr>)
   \<and> SaveSongStatisticsToFile example_lib example_files (Some ''missing.mp3'') blank
       = (False, example_files\<lparr>events := [Opened ''missing.mp3'']\<rparr>)
   \<and> \<not> fp_less (rating blank) (Finite 0)
   \<and> SaveSongRatingToFile example_lib example_files (Some ''missing.mp3'') blank
       = (False, example_files\<lparr>events := [Opened ''missing.mp3'']\<rparr>)
   \<and> \<not> valid blank \<and> valid (GME_ReadFile example_lib ''missing.mp3'' blank) = valid blank
   \<and> map_option valid (ReadFile example_lib example_files ''missing.mp3'' blank) = Some False"
  using unavailable_container [of example_lib example_files blank "''missing.mp3''"]
  by (simp add: example_files_def example_lib_def blank_def)

text \<open>
  Claim C9 as stated fails for the rating-only save of an unrated record: on a file that cannot
  be opened it returns true.
\<close>

theorem SaveSongRatingToFile_unrated_missing_file:
  "contents example_files ''missing.mp3'' = None
   \<and> SaveSongRatingToFile example_lib example_files (Some ''missing.mp3'')
        (blank\<lparr>rating := Finite (- 1)\<rparr>) = (True, example_files)"
  by (simp add: SaveSongRatingToFile_def example_files_def)

subsection \<open>A statistics-only save\<close>

lemma statistics_frame_without_counter [simp]:
  "statistics_frame (without_counter f) = statistics_frame f"
  by (cases f) simp_all

lemma frameID_without_counter [simp]: "frameID (without_counter f) = frameID f"
  by (cases f) simp_all

lemma without_counter_setCounter [simp]: "without_counter (setCounter n f) = without_counter f"
  by (cases f) simp_all

lemma map_without_counter_update:
  "map without_counter (t[i := setCounter n (t ! i)]) = map without_counter t"
proof (cases "i < length t")
  case True
  then show ?thesis by (simp add: map_update list_update_same_conv)
next
  case False
  then have "t[i := setCounter n (t ! i)] = t" by (simp add: list_update_beyond)
  then show ?thesis by simp
qed

lemma filter_remove_found:
  assumes "\<And>v. \<not> P (UserTextIdentificationFrame d v)"
  shows "filter P (remove_found d fs) = filter P fs"
  using assms by (induction d fs rule: remove_found.induct) auto

lemma map_without_counter_remove_found:
  "map without_counter (remove_found d fs) = remove_found d (map without_counter fs)"
  by (induction d fs rule: remove_found.induct) auto

lemma other_frames_SetUserTextFrame:
  assumes "d = ''FMPS_PlayCount'' \<or> d = ''FMPS_Rating_Amarok_Score''"
  shows "other_frames (SetUserTextFrame d v fs) = other_frames fs"
proof -
  have "filter (\<lambda>f. \<not> statistics_frame f) (remove_found d (map without_counter fs))
        = filter (\<lambda>f. \<not> statistics_frame f) (map without_counter fs)"
    using assms by (intro filter_remove_found) auto
  with assms show ?thesis
    by (auto simp add: other_frames_def SetUserTextFrame_def map_without_counter_remove_found)
qed

lemma POPM_SetUserTextFrame:
  "frameListMap (SetUserTextFrame d v fs) ''POPM'' = frameListMap fs ''POPM''"
proof -
  have "filter (\<lambda>f. frameID f = ''POPM'') (remove_found d fs) = filter (\<lambda>f. frameID f = ''POPM'') fs"
    by (intro filter_remove_found) simp
  then show ?thesis by (simp add: frameListMap_def SetUserTextFrame_def)
qed

lemma other_frames_update:
  "other_frames (t[i := setCounter n (t ! i)]) = other_frames t"
  by (simp add: other_frames_def map_without_counter_update)

lemma POPM_without_counter:
  "map without_counter (frameListMap t ''POPM'') = frameListMap (map without_counter t) ''POPM''"
  by (simp add: frameListMap_def filter_map comp_def)

lemma ReadFile_POPM_rating_cong:
  assumes "map without_counter p' = map without_counter p"
  shows "rating (ReadFile_POPM p' s) = rating (ReadFile_POPM p s)"
proof (cases p)
  case Nil
  with assms show ?thesis by simp
next
  case (Cons f fs)
  with assms obtain f' fs' where p': "p' = f' # fs'" and w: "without_counter f' = without_counter f"
    by (cases p') auto
  from w show ?thesis unfolding Cons p'
    by (cases f; cases f') (simp_all add: ReadFile_POPM_def Let_def)
qed

lemma ReadFile_POPM_rating_fresh:
  "rating (ReadFile_POPM (p @ [PopularimeterFrame [] 0 c]) s) = rating (ReadFile_POPM p s)"
  by (cases p) (simp_all add: ReadFile_POPM_def Let_def split: Frame.splits)

lemma GetPOPMFrameFromTag_setCounter:
  fixes A :: "Frame list" and n :: "32 word"
  defines "t1 \<equiv> (case GetPOPMFrameFromTag A of (t, i) \<Rightarrow> t[i := setCounter n (t ! i)])"
  shows "(other_frames t1 = other_frames A
          \<or> other_frames t1 = other_frames A @ [PopularimeterFrame [] 0 0])
         \<and> (\<forall>s. rating (ReadFile_POPM (frameListMap t1 ''POPM'') s)
                  = rating (ReadFile_POPM (frameListMap A ''POPM'') s))"
proof (cases "\<exists>e r c fs. frameListMap A ''POPM'' = PopularimeterFrame e r c # fs")
  case True
  then obtain i where t1: "t1 = A[i := setCounter n (A ! i)]"
    by (auto simp add: t1_def GetPOPMFrameFromTag_def)
  have "map without_counter (frameListMap t1 ''POPM'') = map without_counter (frameListMap A ''POPM'')"
    by (simp add: POPM_without_counter t1 map_without_counter_update)
  then have "rating (ReadFile_POPM (frameListMap t1 ''POPM'') s)
             = rating (ReadFile_POPM (frameListMap A ''POPM'') s)" for s
    by (rule ReadFile_POPM_rating_cong)
  moreover have "other_frames t1 = other_frames A"
    by (simp add: t1 other_frames_update)
  ultimately show ?thesis by simp
next
  case False
  then have "GetPOPMFrameFromTag A = (A @ [PopularimeterFrame [] 0 0], length A)"
    by (auto simp add: GetPOPMFrameFromTag_def split: list.splits Frame.splits)
  then have t1: "t1 = A @ [PopularimeterFrame [] 0 n]"
    by (simp add: t1_def)
  have "other_frames t1 = other_frames A @ [PopularimeterFrame [] 0 0]"
    by (simp add: t1 other_frames_def)
  moreover have "rating (ReadFile_POPM (frameListMap t1 ''POPM'') s)
             = rating (ReadFile_POPM (frameListMap A ''POPM'') s)" for s
    by (simp add: t1 frameListMap_def ReadFile_POPM_rating_fresh)
  ultimately show ?thesis by simp
qed

lemma statistics_only_ID3v2_refl: "statistics_only_ID3v2 frames frames"
  by (simp add: statistics_only_ID3v2_def)

lemma statistics_only_ID3v2_SetUserTextFrame:
  assumes "d = ''FMPS_PlayCount'' \<or> d = ''FMPS_Rating_Amarok_Score''"
    and "statistics_only_ID3v2 frames t"
  shows "statistics_only_ID3v2 frames (SetUserTextFrame d v t)"
  using assms(2)
  by (simp add: statistics_only_ID3v2_def other_frames_SetUserTextFrame [OF assms(1)]
      POPM_SetUserTextFrame)

lemma statistics_only_ID3v2_playcount:
  "statistics_only_ID3v2 frames
     (case GetPOPMFrameFromTag (SetUserTextFrame ''FMPS_PlayCount'' v frames) of
        (t, i) \<Rightarrow> t[i := setCounter n (t ! i)])"
  using GetPOPMFrameFromTag_setCounter [where A = "SetUserTextFrame ''FMPS_PlayCount'' v frames"
      and n = n]
  by (simp add: statistics_only_ID3v2_def other_frames_SetUserTextFrame POPM_SetUserTextFrame)

lemma SaveSongStatistics_ID3v2_only:
  "statistics_only_ID3v2 frames (SaveSongStatistics_ID3v2 L song frames)"
proof -
  define t1 where "t1 = (if playcount song \<noteq> 0 then
               (case GetPOPMFrameFromTag
                       (SetUserTextFrame ''FMPS_PlayCount'' (number (playcount song)) frames) of
                  (t, i) \<Rightarrow> t[i := setCounter (word_of_int (playcount song)) (t ! i)])
             else frames)"
  have 1: "statistics_only_ID3v2 frames t1"
    unfolding t1_def
    by (simp add: statistics_only_ID3v2_playcount statistics_only_ID3v2_refl)
  have e: "SaveSongStatistics_ID3v2 L song frames =
             (if score song \<noteq> 0
              then SetUserTextFrame ''FMPS_Rating_Amarok_Score''
                     (QString_number L (to_double (of_int (score song) / 100))) t1
              else t1)"
    by (simp add: SaveSongStatistics_ID3v2_def t1_def Let_def)
  show ?thesis
    unfolding e using 1 by (simp add: statistics_only_ID3v2_SetUserTextFrame)
qed

lemma upper_keys:
  "upper ''FMPS_PLAYCOUNT'' = ''FMPS_PLAYCOUNT''"
  "upper ''FMPS_RATING_AMAROK_SCORE'' = ''FMPS_RATING_AMAROK_SCORE''"
  "upper ''FMPS_PlayCount'' = ''FMPS_PLAYCOUNT''"
  "upper ''FMPS_Rating_Amarok_Score'' = ''FMPS_RATING_AMAROK_SCORE''"
  by (simp_all add: upper_def char_of_eq_iff)

lemma SetFMPSStatisticsVorbisComments_only:
  assumes "k \<notin> {''FMPS_PLAYCOUNT'', ''FMPS_RATING_AMAROK_SCORE''}"
  shows "SetFMPSStatisticsVorbisComments L song m k = m k"
  using assms
  by (simp add: SetFMPSStatisticsVorbisComments_def addField_def Let_def upper_keys)

lemma saveApeSongStats_only:
  "statistics_only_items its (saveApeSongStats L song its)"
  by (simp add: statistics_only_items_def saveApeSongStats_def setItem_def Let_def upper_keys)

lemma SaveSongStatistics_tags_only:
  assumes "SaveSongStatistics_tags L song f = Some f'"
  shows "statistics_only f f'"
  using assms
  by (cases f)
     (auto simp add: SaveSongStatistics_tags_def statistics_only_def
        SaveSongStatistics_ID3v2_only SetFMPSStatisticsVorbisComments_only saveApeSongStats_only
        addAttribute_def Let_def split: option.splits)

lemma SaveSongStatistics_tags_None:
  "SaveSongStatistics_tags L song f = None \<longleftrightarrow> f = Other"
  by (cases f) (simp_all add: SaveSongStatistics_tags_def)

text \<open>
  Claim C6. \<open>SaveSongStatisticsToFile\<close> changes at most the file it is given, and only when
  the save succeeds; the file then keeps its basic tag (title, artist, album, genre, comment,
  year, track) and its audio properties, and its tags differ from the old ones by the play
  count and score encodings only (\<open>statistics_only\<close>): the rating encodings are as they were.
  On a file of a class without these slots it returns true and saves nothing.
\<close>

theorem SaveSongStatisticsToFile_statistics_only:
  assumes "SaveSongStatisticsToFile L fs filename song = (ok, fs')"
  shows "(\<forall>n. contents fs' n = contents fs n
             \<or> (filename = Some n \<and> ok
                 \<and> (\<exists>fileref f'. contents fs n = Some fileref
                        \<and> contents fs' n = Some (fileref\<lparr>ref_file := f'\<rparr>)
                        \<and> statistics_only (ref_file fileref) f')))
         \<and> (\<forall>name fileref. filename = Some name \<and> contents fs name = Some fileref
                \<and> ref_file fileref = Other \<longrightarrow>
              ok \<and> fs' = fs\<lparr>events := events fs @ [Opened name]\<rparr>)"
proof (cases filename)
  case None
  with assms show ?thesis by (simp add: SaveSongStatisticsToFile_def)
next
  case (Some name)
  show ?thesis
  proof (cases "contents fs name")
    case None
    with Some assms show ?thesis
      by (auto simp add: SaveSongStatisticsToFile_def GetFileRef_def)
  next
    case fr: (Some fileref)
    show ?thesis
    proof (cases "SaveSongStatistics_tags L song (ref_file fileref)")
      case None
      with Some fr assms show ?thesis
        by (auto simp add: SaveSongStatisticsToFile_def GetFileRef_def)
    next
      case t: (Some f')
      then have o: "ref_file fileref \<noteq> Other"
        using SaveSongStatistics_tags_None [of L song "ref_file fileref"] by auto
      from SaveSongStatistics_tags_only [OF t] have so: "statistics_only (ref_file fileref) f'" .
      from Some fr t assms show ?thesis
        using o so
        by (auto simp add: SaveSongStatisticsToFile_def GetFileRef_def save_def
            split: if_splits)
    qed
  qed
qed

lemma number_7: "number 7 = ''7''"
  by (simp add: number_def digits_of.simps char_of_eq_iff)

theorem SaveSongStatisticsToFile_statistics_only_witness:
  "SaveSongStatisticsToFile example_lib example_files (Some ''plain.wav'') (blank\<lparr>playcount := 7\<rparr>)
     = (True, example_files\<lparr>events := events example_files @ [Opened ''plain.wav'']\<rparr>)
   \<and> SaveSongStatisticsToFile example_lib example_files (Some ''rated.mp3'')
       (blank\<lparr>playcount := 7\<rparr>)
     = (True, example_files
          \<lparr>contents := (contents example_files)
             (''rated.mp3'' \<mapsto> open_file (MPEG (Some
                [UserTextIdentificationFrame ''FMPS_Rating'' ''0.5'',
                 PopularimeterFrame [] 0xFF 7,
                 UserTextIdentificationFrame ''FMPS_PlayCount'' ''7'']))),
            events := [Opened ''rated.mp3'', Saved ''rated.mp3'']\<rparr>)
   \<and> statistics_only
        (MPEG (Some [UserTextIdentificationFrame ''FMPS_Rating'' ''0.5'',
                     PopularimeterFrame [] 0xFF 3]))
        (MPEG (Some [UserTextIdentificationFrame ''FMPS_Rating'' ''0.5'',
                     PopularimeterFrame [] 0xFF 7,
                     UserTextIdentificationFrame ''FMPS_PlayCount'' ''7'']))"
proof -
  let ?old = "[UserTextIdentificationFrame ''FMPS_Rating'' ''0.5'', PopularimeterFrame [] 0xFF 3]"
  let ?new = "[UserTextIdentificationFrame ''FMPS_Rating'' ''0.5'', PopularimeterFrame [] 0xFF 7,
               UserTextIdentificationFrame ''FMPS_PlayCount'' ''7'']"
  let ?fs' = "example_files
          \<lparr>contents := (contents example_files)(''rated.mp3'' \<mapsto> open_file (MPEG (Some ?new))),
            events := [Opened ''rated.mp3'', Saved ''rated.mp3'']\<rparr>"
  have w: "SaveSongStatisticsToFile example_lib example_files (Some ''plain.wav'')
             (blank\<lparr>playcount := 7\<rparr>)
           = (True, example_files\<lparr>events := events example_files @ [Opened ''plain.wav'']\<rparr>)"
    using SaveSongStatisticsToFile_statistics_only
      [of example_lib example_files "Some ''plain.wav''" "blank\<lparr>playcount := 7\<rparr>"
         "fst (SaveSongStatisticsToFile example_lib example_files (Some ''plain.wav'')
                (blank\<lparr>playcount := 7\<rparr>))"
         "snd (SaveSongStatisticsToFile example_lib example_files (Some ''plain.wav'')
                (blank\<lparr>playcount := 7\<rparr>))",
       THEN conjunct2, rule_format, of "''plain.wav''" "open_file Other"]
    by (simp add: example_files_def open_file_def prod_eq_iff)
  have m: "SaveSongStatisticsToFile example_lib example_files (Some ''rated.mp3'')
             (blank\<lparr>playcount := 7\<rparr>) = (True, ?fs')"
    by (simp add: SaveSongStatisticsToFile_def GetFileRef_def save_def example_files_def
        open_file_def SaveSongStatistics_tags_def SaveSongStatistics_ID3v2_def
        SetUserTextFrame_def GetPOPMFrameFromTag_def frameListMap_def number_7 blank_def
        fun_eq_iff)
  from SaveSongStatisticsToFile_statistics_only [OF m, THEN conjunct1, rule_format,
      of "''rated.mp3''"]
  have "statistics_only (MPEG (Some ?old)) (MPEG (Some ?new))"
    by (auto simp add: example_files_def open_file_def)
  with w m show ?thesis by (intro conjI)
qed

end
